theory Spec2Isabelle
  imports Complex_Main "HOL-Library.Char_ord" "HOL-Library.List_Lexorder"
begin

section \<open>Python values and number formatting\<close>

text \<open>
  The module is Python on the Odoo framework. The values its functions handle are
  modelled as follows.
  \<^item> A \<open>Char\<close>, \<open>Text\<close> or \<open>str\<close> value is a \<open>string\<close>; the empty string stands for
    both \<open>''\<close> and the \<open>False\<close> an unset Odoo character field reads as (both are falsy,
    and the code tests these fields by truthiness only).
  \<^item> A Python \<open>int\<close> is an \<open>int\<close>.
  \<^item> A Python \<open>float\<close> is the rational number the finite double denotes (type \<open>rat\<close>);
    infinities are not values of a marks or percentage field. Comparison and formatting
    of a double are exact functions of that number. Division and multiplication round:
    the rounding to the nearest double is the parameter \<open>rnd\<close> of the functions that
    compute.
  \<^item> A cell of a pandas row is a \<open>pyval\<close>: \<open>None\<close>, the missing-value marker \<open>NaN\<close>, a
    string, an int or a float.
\<close>

datatype pyval = PNone | PNaN | PStr string | PInt int | PFloat rat

text \<open>The exceptions that the module raises or that reach it, each with its message.\<close>

datatype error = UserError string | ValueError string | MissingError string | KeyError string

fun err_str :: "error \<Rightarrow> string" where
  "err_str (UserError m) = m"
| "err_str (ValueError m) = m"
| "err_str (MissingError m) = m"
| "err_str (KeyError m) = m"

subsection \<open>\<open>str\<close> of an integer\<close>

definition digit_char :: "nat \<Rightarrow> char" where
  "digit_char n = ''0123456789'' ! (n mod 10)"

fun str_nat :: "nat \<Rightarrow> string" where
  "str_nat n = (if n < 10 then [digit_char n] else str_nat (n div 10) @ [digit_char n])"

declare str_nat.simps [simp del]

definition str_int :: "int \<Rightarrow> string" where
  "str_int i = (if i < 0 then ''-'' @ str_nat (nat (- i)) else str_nat (nat i))"

subsection \<open>Arithmetic and conversions of floats\<close>

definition py_truediv :: "(rat \<Rightarrow> rat) \<Rightarrow> rat \<Rightarrow> rat \<Rightarrow> rat" where
  "py_truediv rnd a b = rnd (a / b)"

definition py_mul :: "(rat \<Rightarrow> rat) \<Rightarrow> rat \<Rightarrow> rat \<Rightarrow> rat" where
  "py_mul rnd a b = rnd (a * b)"

text \<open>\<open>int(x)\<close> of a float truncates towards zero.\<close>

definition py_int :: "rat \<Rightarrow> int" where
  "py_int x = (if 0 \<le> x then \<lfloor>x\<rfloor> else \<lceil>x\<rceil>)"

subsection \<open>Fixed-point formatting: \<open>f"{x:.2f}"\<close>\<close>

text \<open>
  Python prints the decimal expansion of the double's exact value, correctly rounded to
  the requested number of decimals, ties to the even digit, and keeps the sign of a
  negative number that rounds to zero.
\<close>

definition round_half_even :: "rat \<Rightarrow> int" where
  "round_half_even q =
     (let f = \<lfloor>q\<rfloor>; d = q - of_int f
      in if d < 1 / 2 then f
         else if 1 / 2 < d then f + 1
         else if even f then f else f + 1)"

definition zfill :: "nat \<Rightarrow> string \<Rightarrow> string" where
  "zfill w s = replicate (w - length s) (CHR ''0'') @ s"

definition format_fixed :: "nat \<Rightarrow> rat \<Rightarrow> string" where
  "format_fixed d x =
     (let n = nat (round_half_even (\<bar>x\<bar> * 10 ^ d))
      in (if x < 0 then ''-'' else '''')
         @ str_nat (n div 10 ^ d)
         @ (if d = 0 then '''' else ''.'' @ zfill d (str_nat (n mod 10 ^ d))))"


section \<open>The models (\<open>models/stud.py\<close>)\<close>

subsection \<open>Lookup tables: Department, Institute, Degree\<close>

text \<open>
  The three lookup models have one stored field, \<open>name\<close>. A table is the list of its rows
  in the order \<open>search([])\<close> returns them, together with the record of the ORM calls made
  on it, which lets the number of lookups and inserts of the seeding be counted.
\<close>

record named_row =
  row_id :: nat
  row_name :: string

type_synonym department = named_row
type_synonym institute = named_row
type_synonym degree = named_row

datatype orm_call = Search string | Create string

record table =
  rows :: "named_row list"
  calls :: "orm_call list"

definition fresh_id :: "nat list \<Rightarrow> nat" where
  "fresh_id ids = Suc (fold max ids 0)"

text \<open>\<open>self.search([('name', '=', name)], limit=1)\<close>: the first row with exactly that name.\<close>

definition search_name :: "table \<Rightarrow> string \<Rightarrow> named_row list \<times> table" where
  "search_name t n =
     (take 1 (filter (\<lambda>r. row_name r = n) (rows t)), t\<lparr>calls := calls t @ [Search n]\<rparr>)"

text \<open>\<open>self.create({'name': name})\<close>: a new row with a fresh id, after the others.\<close>

definition create_name :: "table \<Rightarrow> string \<Rightarrow> table" where
  "create_name t n =
     t\<lparr>rows := rows t @ [\<lparr>row_id = fresh_id (map row_id (rows t)), row_name = n\<rparr>],
       calls := calls t @ [Create n]\<rparr>"

text \<open>
  The body of \<open>Department.init\<close>, \<open>Institute.init\<close> and \<open>Degree.init\<close>, the same loop in
  each: \<^verbatim>\<open>for name in names: if not self.search(...): self.create({'name': name})\<close>.
\<close>

fun init_loop :: "string list \<Rightarrow> table \<Rightarrow> table" where
  "init_loop [] t = t"
| "init_loop (n # ns) t =
     (case search_name t n of
        (found, t') \<Rightarrow> init_loop ns (if found = [] then create_name t' n else t'))"

definition department_names :: "string list" where
  "department_names = [''MATH'', ''BSCS'', ''PHYSICS'', ''BBA'', ''COMMERCE'', ''ALL'']"

definition institute_names :: "string list" where
  "institute_names = [''Superior'', ''Aspire'', ''Degree'', ''GUCF'', ''Punjab'']"

definition degree_names :: "string list" where
  "degree_names = [''Matric'', ''FSc'', ''BSc'', ''MPhil'']"

definition Department_init :: "table \<Rightarrow> table" where
  "Department_init t = init_loop department_names t"

definition Institute_init :: "table \<Rightarrow> table" where
  "Institute_init t = init_loop institute_names t"

definition Degree_init :: "table \<Rightarrow> table" where
  "Degree_init t = init_loop degree_names t"

text \<open>How many rows of a table carry a name, and how often a call was made.\<close>

definition name_count :: "table \<Rightarrow> string \<Rightarrow> nat" where
  "name_count t n = length (filter (\<lambda>r. row_name r = n) (rows t))"

definition call_count :: "table \<Rightarrow> orm_call \<Rightarrow> nat" where
  "call_count t c = length (filter (\<lambda>x. x = c) (calls t))"

subsection \<open>Education and Student\<close>

datatype gender = male | female

text \<open>
  A \<open>Many2one\<close> field reads as the record it points to, or as an empty (falsy) record
  set: \<open>named_row option\<close>. The education rows of a student (\<open>about_education\<close>, the
  inverse of \<open>connecting_field\<close>) are held in the student.
\<close>

record education =
  edu_active :: bool
  institute :: "institute option"
  degree :: "degree option"
  passing_year :: int

record student =
  s_id :: nat
  active :: bool
  name :: string
  father_name :: string
  age :: int
  grade :: string
  address :: string
  department_id :: "department option"
  about_education :: "education list"
  total_marks :: rat
  obtained_marks :: rat
  percentage :: rat
  gender :: "gender option"

text \<open>The body of the loop of \<open>compute_percentage\<close>, and the loop over the record set.\<close>

definition compute_percentage_record :: "(rat \<Rightarrow> rat) \<Rightarrow> student \<Rightarrow> student" where
  "compute_percentage_record rnd record =
     (if total_marks record > 0
      then record\<lparr>percentage :=
             py_mul rnd (py_truediv rnd (obtained_marks record) (total_marks record)) 100\<rparr>
      else record\<lparr>percentage := 0\<rparr>)"

definition compute_percentage :: "(rat \<Rightarrow> rat) \<Rightarrow> student list \<Rightarrow> student list" where
  "compute_percentage rnd self = map (compute_percentage_record rnd) self"

text \<open>
  The field declarations give the ORM's behaviour on a write. \<open>percentage\<close> is declared
  with \<open>compute='compute_percentage', store=True\<close> and no inverse, so it is read-only: a
  write carries values for the other fields only. \<open>@api.depends('total_marks',
  'obtained_marks')\<close> makes the ORM run \<open>compute_percentage\<close> after a write that carries
  one of the two, and on every create.
\<close>

datatype student_val =
    Val_active bool
  | Val_name string
  | Val_father_name string
  | Val_age int
  | Val_grade string
  | Val_address string
  | Val_department_id "department option"
  | Val_about_education "education list"
  | Val_total_marks rat
  | Val_obtained_marks rat
  | Val_gender "gender option"

fun assign :: "student \<Rightarrow> student_val \<Rightarrow> student" where
  "assign s (Val_active v) = s\<lparr>active := v\<rparr>"
| "assign s (Val_name v) = s\<lparr>name := v\<rparr>"
| "assign s (Val_father_name v) = s\<lparr>father_name := v\<rparr>"
| "assign s (Val_age v) = s\<lparr>age := v\<rparr>"
| "assign s (Val_grade v) = s\<lparr>grade := v\<rparr>"
| "assign s (Val_address v) = s\<lparr>address := v\<rparr>"
| "assign s (Val_department_id v) = s\<lparr>department_id := v\<rparr>"
| "assign s (Val_about_education v) = s\<lparr>about_education := v\<rparr>"
| "assign s (Val_total_marks v) = s\<lparr>total_marks := v\<rparr>"
| "assign s (Val_obtained_marks v) = s\<lparr>obtained_marks := v\<rparr>"
| "assign s (Val_gender v) = s\<lparr>gender := v\<rparr>"

fun depends_percentage :: "student_val \<Rightarrow> bool" where
  "depends_percentage (Val_total_marks v) = True"
| "depends_percentage (Val_obtained_marks v) = True"
| "depends_percentage v = False"

definition orm_write :: "(rat \<Rightarrow> rat) \<Rightarrow> student \<Rightarrow> student_val list \<Rightarrow> student" where
  "orm_write rnd s vals =
     (let s' = foldl assign s vals
      in if list_ex depends_percentage vals then compute_percentage_record rnd s' else s')"

definition new_student :: "nat \<Rightarrow> student" where
  "new_student i =
     \<lparr>s_id = i, active = True, name = [], father_name = [], age = 0, grade = [],
      address = [], department_id = None, about_education = [], total_marks = 0,
      obtained_marks = 0, percentage = 0, gender = None\<rparr>"

definition orm_create :: "(rat \<Rightarrow> rat) \<Rightarrow> nat \<Rightarrow> student_val list \<Rightarrow> student" where
  "orm_create rnd i vals = compute_percentage_record rnd (foldl assign (new_student i) vals)"

text \<open>The invariant of the derived field.\<close>

definition percentage_ok :: "(rat \<Rightarrow> rat) \<Rightarrow> student \<Rightarrow> bool" where
  "percentage_ok rnd s \<longleftrightarrow>
     percentage s =
       (if total_marks s > 0
        then py_mul rnd (py_truediv rnd (obtained_marks s) (total_marks s)) 100
        else 0)"

subsection \<open>Actions of a student\<close>

text \<open>
  What an action returns to the client: a notification
  (\<open>ir.actions.client\<close> / \<open>display_notification\<close> with title, message, type, sticky and
  whether a \<open>next\<close> action closes the window), a URL to open with its target, or a
  window to open on a wizard model with default values.
\<close>

datatype report_type = single | department_wise | unset_type

record defaults =
  default_student_id :: "nat option"
  default_report_type :: report_type
  default_department_id :: "nat option"
  default_email_to :: string

datatype action =
    Notification string string string bool bool
  | ActUrl string string
  | ActWindow string defaults

text \<open>\<open>self.ensure_one()\<close> raises \<open>ValueError\<close> unless the record set has one record.\<close>

definition ensure_one :: "'a list \<Rightarrow> error + 'a" where
  "ensure_one self =
     (case self of [r] \<Rightarrow> Inr r | _ \<Rightarrow> Inl (ValueError ''Expected singleton''))"

text \<open>
  The two state-changing actions return the record set as it is afterwards and either
  the error raised or the action. \<open>self.active = False\<close> is a write of that one field.
\<close>

definition action_delete_record ::
  "(rat \<Rightarrow> rat) \<Rightarrow> student list \<Rightarrow> student list \<times> (error + action)" where
  "action_delete_record rnd self =
     (case ensure_one self of
        Inl e \<Rightarrow> (self, Inl e)
      | Inr r \<Rightarrow>
          (let r' = orm_write rnd r [Val_active False]
           in ([r'],
               Inr (Notification ''Archived!''
                      (''Student '' @ name r' @ '' has been archived.'')
                      ''warning'' False False))))"

definition action_restore_record ::
  "(rat \<Rightarrow> rat) \<Rightarrow> student list \<Rightarrow> student list \<times> (error + action)" where
  "action_restore_record rnd self =
     (case ensure_one self of
        Inl e \<Rightarrow> (self, Inl e)
      | Inr r \<Rightarrow>
          (let r' = orm_write rnd r [Val_active True]
           in ([r'],
               Inr (Notification ''Restored!''
                      (''Student '' @ name r' @ '' has been restored.'')
                      ''success'' False False))))"

definition action_open_report_choice :: "student list \<Rightarrow> error + action" where
  "action_open_report_choice self =
     (case ensure_one self of
        Inl e \<Rightarrow> Inl e
      | Inr r \<Rightarrow>
          Inr (ActWindow ''student.report.wizard''
                 \<lparr>default_student_id = Some (s_id r),
                  default_report_type = single,
                  default_department_id = map_option row_id (department_id r),
                  default_email_to = []\<rparr>))"


section \<open>The report generator (\<open>reports/report.py\<close>)\<close>

subsection \<open>Collaborators, rows and the rendered document\<close>

text \<open>
  The columns that the two reports name. \<open>column_label\<close> is the text of the column as
  the source writes it.
\<close>

datatype column =
    Col_Department | Col_Name | Col_Father_Name | Col_Age | Col_Gender | Col_Grade
  | Col_Total_Marks | Col_Obtained_Marks | Col_Percentage | Col_Address
  | Col_Institute | Col_Degree | Col_Passing_Year

fun column_label :: "column \<Rightarrow> string" where
  "column_label Col_Department = ''Department''"
| "column_label Col_Name = ''Name''"
| "column_label Col_Father_Name = ''Father Name''"
| "column_label Col_Age = ''Age''"
| "column_label Col_Gender = ''Gender''"
| "column_label Col_Grade = ''Grade''"
| "column_label Col_Total_Marks = ''Total Marks''"
| "column_label Col_Obtained_Marks = ''Obtained Marks''"
| "column_label Col_Percentage = ''Percentage''"
| "column_label Col_Address = ''Address''"
| "column_label Col_Institute = ''Institute''"
| "column_label Col_Degree = ''Degree''"
| "column_label Col_Passing_Year = ''Passing Year''"

text \<open>
  A row (a dict put into the data frame, and the Series \<open>iterrows\<close> gives back) maps
  column names to cells. The frame is the list of its rows in insertion order. Each frame
  here has a string column, so \<open>iterrows\<close> hands every cell back as the Python object
  that was put in.
\<close>

type_synonym row = "column \<rightharpoonup> pyval"
type_synonym dataframe = "row list"

text \<open>
  The rendered HTML is modelled by its structure: the sequence of titles and tables that
  the source concatenates, each table as its rows, each row as the texts of its cells. A
  placeholder row carries its \<open>colspan\<close> and its message. The style sheet in the head
  of the document is left out.
\<close>

datatype html_row = Header_row "string list" | Data_row "string list" | Empty_row nat string

datatype html_elem =
    Report_title string
  | Department_title string
  | Section_title string
  | Html_table "html_row list"

type_synonym html = "html_elem list"

text \<open>
  What the code calls and this repository does not define: \<open>pisa.CreatePDF\<close>, which
  raises or returns a status with an error count and the bytes written; \<open>str\<close> of a float;
  \<open>float\<close> of a string (\<open>None\<close> when it raises \<open>ValueError\<close>); \<open>base64.b64encode\<close>.
\<close>

datatype pisa_result = PisaRaises string | PisaStatus nat string

record externals =
  pisa_CreatePDF :: "html \<Rightarrow> pisa_result"
  str_float :: "rat \<Rightarrow> string"
  float_of_str :: "string \<Rightarrow> rat option"
  b64encode :: "string \<Rightarrow> string"

record attachment =
  att_id :: nat
  att_name :: string
  att_type :: string
  att_datas :: string
  att_mimetype :: string
  att_res_model :: string
  att_res_id :: nat

record env =
  department_table :: "department list"
  student_table :: "student list"
  attachment_table :: "attachment list"

text \<open>
  \<open>Student.search(domain)\<close> leaves archived records out, as every search on a model with
  an \<open>active\<close> field does.
\<close>

definition search_students :: "env \<Rightarrow> (student \<Rightarrow> bool) \<Rightarrow> student list" where
  "search_students env domain = filter (\<lambda>s. active s \<and> domain s) (student_table env)"

definition create_attachment :: "env \<Rightarrow> attachment \<Rightarrow> env \<times> attachment" where
  "create_attachment env vals =
     (let a = vals\<lparr>att_id := fresh_id (map att_id (attachment_table env))\<rparr>
      in (env\<lparr>attachment_table := attachment_table env @ [a]\<rparr>, a))"

fun map_result :: "('a \<Rightarrow> error + 'b) \<Rightarrow> 'a list \<Rightarrow> error + 'b list" where
  "map_result f [] = Inr []"
| "map_result f (x # xs) =
     (case f x of
        Inl e \<Rightarrow> Inl e
      | Inr y \<Rightarrow> (case map_result f xs of Inl e \<Rightarrow> Inl e | Inr ys \<Rightarrow> Inr (y # ys)))"

text \<open>\<open>row[column_name]\<close> raises \<open>KeyError\<close> for a column the row does not have.\<close>

definition row_get :: "row \<Rightarrow> column \<Rightarrow> error + pyval" where
  "row_get r c = (case r c of None \<Rightarrow> Inl (KeyError (column_label c)) | Some v \<Rightarrow> Inr v)"

fun py_str :: "externals \<Rightarrow> pyval \<Rightarrow> string" where
  "py_str ext (PStr s) = s"
| "py_str ext (PInt n) = str_int n"
| "py_str ext (PFloat x) = str_float ext x"
| "py_str ext PNone = ''None''"
| "py_str ext PNaN = ''nan''"

fun isna :: "pyval \<Rightarrow> bool" where
  "isna PNone = True"
| "isna PNaN = True"
| "isna v = False"

subsection \<open>\<open>_format_cell_value\<close>\<close>

text \<open>
  The branches in the order of the source. \<open>float(n)\<close> of an int is taken as exact (it is
  for the integers an \<open>Integer\<close> field holds). The \<open>try\<close> blocks catch \<open>ValueError\<close> and
  \<open>TypeError\<close>, which only \<open>float\<close> of a string can raise here.
\<close>

definition format_value :: "externals \<Rightarrow> column \<Rightarrow> pyval \<Rightarrow> string" where
  "format_value ext column_name v =
     (if isna v \<or> v = PNone \<or> v = PStr '''' then ''-''
      else if column_name = Col_Percentage then
        (case v of
           PInt n \<Rightarrow> format_fixed 2 (of_int n) @ ''%''
         | PFloat x \<Rightarrow> format_fixed 2 x @ ''%''
         | PStr s \<Rightarrow>
             (if CHR ''%'' \<notin> set s
              then (case float_of_str ext s of
                      Some x \<Rightarrow> format_fixed 2 x @ ''%''
                    | None \<Rightarrow> py_str ext v)
              else py_str ext v)
         | _ \<Rightarrow> py_str ext v)
      else if column_name \<in> set [Col_Age, Col_Total_Marks, Col_Obtained_Marks] then
        (case v of
           PInt n \<Rightarrow> str_int n
         | PFloat x \<Rightarrow>
             (if x \<noteq> of_int (py_int x) then format_fixed 1 x else str_int (py_int x))
         | _ \<Rightarrow> py_str ext v)
      else py_str ext v)"

definition format_cell_value :: "externals \<Rightarrow> row \<Rightarrow> column \<Rightarrow> error + string" where
  "format_cell_value ext r column_name =
     (case row_get r column_name of
        Inl e \<Rightarrow> Inl e
      | Inr v \<Rightarrow> Inr (format_value ext column_name v))"

subsection \<open>\<open>print_department_report\<close>\<close>

definition STANDARD_COLUMNS :: "column list" where
  "STANDARD_COLUMNS =
     [Col_Name, Col_Father_Name, Col_Age, Col_Grade, Col_Total_Marks, Col_Obtained_Marks,
      Col_Percentage]"

text \<open>
  Step 1: the departments and the label. The argument \<open>department_id\<close> is written
  \<open>dept_id\<close>; a falsy one (\<open>None\<close> or 0) targets all departments. \<open>browse\<close> gives the
  record with that id, and reading the \<open>name\<close> of a record that does not exist raises
  \<open>MissingError\<close>.
\<close>

definition get_departments :: "env \<Rightarrow> nat option \<Rightarrow> error + department list \<times> string" where
  "get_departments env dept_id =
     (case dept_id of
        None \<Rightarrow> Inr (department_table env, ''ALL'')
      | Some i \<Rightarrow>
          if i = 0 then Inr (department_table env, ''ALL'')
          else (case find (\<lambda>d. row_id d = i) (department_table env) of
                  None \<Rightarrow> Inl (MissingError ''Record does not exist or has been deleted.'')
                | Some d \<Rightarrow> Inr ([d], if row_name d \<noteq> [] then row_name d else ''ALL'')))"

text \<open>Step 2: the students, all of them under the label \<open>ALL\<close>.\<close>

definition fetch_students :: "env \<Rightarrow> nat option \<Rightarrow> string \<Rightarrow> student list" where
  "fetch_students env dept_id dept_name =
     (if dept_name = ''ALL'' then search_students env (\<lambda>s. True)
      else search_students env (\<lambda>s. map_option row_id (department_id s) = dept_id))"

text \<open>Step 4: one row per student; \<open>x or ''\<close> turns a falsy field into the empty string.\<close>

definition build_row :: "student \<Rightarrow> row" where
  "build_row s =
     [Col_Department \<mapsto>
        PStr (case department_id s of Some d \<Rightarrow> row_name d | None \<Rightarrow> ''No Department''),
      Col_Name \<mapsto> PStr (if name s \<noteq> [] then name s else []),
      Col_Father_Name \<mapsto> PStr (if father_name s \<noteq> [] then father_name s else []),
      Col_Age \<mapsto> (if age s \<noteq> 0 then PInt (age s) else PStr []),
      Col_Grade \<mapsto> PStr (if grade s \<noteq> [] then grade s else []),
      Col_Total_Marks \<mapsto> (if total_marks s \<noteq> 0 then PFloat (total_marks s) else PStr []),
      Col_Obtained_Marks \<mapsto>
        (if obtained_marks s \<noteq> 0 then PFloat (obtained_marks s) else PStr []),
      Col_Percentage \<mapsto> (if percentage s \<noteq> 0 then PFloat (percentage s) else PFloat 0)]"

definition build_dataframe :: "student list \<Rightarrow> dataframe" where
  "build_dataframe students = (if students \<noteq> [] then map build_row students else [])"

text \<open>
  \<open>df.groupby('Department')\<close>: one group for each value that occurs in the column, in
  sorted order of the values, the rows of a group in the order of the frame.
\<close>

definition department_keys :: "dataframe \<Rightarrow> string list" where
  "department_keys df =
     sort (remdups (concat (map (\<lambda>r. case r Col_Department of Some (PStr k) \<Rightarrow> [k] | _ \<Rightarrow> []) df)))"

definition groupby_Department :: "dataframe \<Rightarrow> (string \<times> dataframe) list" where
  "groupby_Department df =
     map (\<lambda>k. (k, filter (\<lambda>r. r Col_Department = Some (PStr k)) df)) (department_keys df)"

definition header_row :: "column list \<Rightarrow> html_row" where
  "header_row cols = Header_row (map column_label cols)"

definition render_data_row :: "externals \<Rightarrow> row \<Rightarrow> error + html_row" where
  "render_data_row ext r =
     (case map_result (format_cell_value ext r) STANDARD_COLUMNS of
        Inl e \<Rightarrow> Inl e
      | Inr cells \<Rightarrow> Inr (Data_row cells))"

text \<open>
  Step 6, the loop \<^verbatim>\<open>for dept_name, group in df.groupby('Department')\<close>. Its loop
  variable is the variable \<open>dept_name\<close> of step 1, so the function returns, with the HTML,
  the value that \<open>dept_name\<close> has when the loop ends.
\<close>

fun render_groups ::
  "externals \<Rightarrow> (string \<times> dataframe) list \<Rightarrow> html \<times> string \<Rightarrow> error + html \<times> string" where
  "render_groups ext [] (html, dept_name) = Inr (html, dept_name)"
| "render_groups ext ((key, grp) # groups) (html, dept_name) =
     (case (if grp = []
            then Inr [Empty_row (length STANDARD_COLUMNS) ''No students in this department'']
            else map_result (render_data_row ext) grp) of
        Inl e \<Rightarrow> Inl e
      | Inr trs \<Rightarrow>
          render_groups ext groups
            (html @ [Department_title (''Department: '' @ key),
                     Html_table (header_row STANDARD_COLUMNS # trs)],
             key))"

definition render_department_html ::
  "externals \<Rightarrow> string \<Rightarrow> dataframe \<Rightarrow> error + html \<times> string" where
  "render_department_html ext dept_name df =
     (let html = [Report_title (''Department Report - '' @ dept_name)]
      in if df = [] then
           Inr (html @ [Department_title (''Department: '' @ dept_name),
                        Html_table [header_row STANDARD_COLUMNS,
                          Empty_row (length STANDARD_COLUMNS)
                            ''No student records found for this department'']],
                dept_name)
         else render_groups ext (groupby_Department df) (html, dept_name))"

text \<open>
  Step 7, the same in both reports: the \<open>except Exception\<close> clause also catches the
  \<open>UserError\<close> that the \<open>try\<close> block raises for a non-zero error count.
\<close>

definition create_pdf :: "externals \<Rightarrow> html \<Rightarrow> error + string" where
  "create_pdf ext html =
     (case pisa_CreatePDF ext html of
        PisaRaises m \<Rightarrow> Inl (UserError (''PDF creation failed: '' @ m))
      | PisaStatus err pdf_data \<Rightarrow>
          if err \<noteq> 0
          then Inl (UserError (''PDF creation failed: ''
                      @ err_str (UserError (''PDF generation error: '' @ str_nat err))))
          else Inr pdf_data)"

definition replace_spaces :: "string \<Rightarrow> string" where
  "replace_spaces s = map (\<lambda>c. if c = CHR '' '' then CHR ''_'' else c) s"

definition download_action :: "attachment \<Rightarrow> action" where
  "download_action a = ActUrl (''/web/content/'' @ str_nat (att_id a) @ ''?download=true'') ''self''"

text \<open>
  Steps 1 to 6 of the function: the HTML, and the value of \<open>dept_name\<close> when the HTML is
  complete.
\<close>

definition department_report_html ::
  "externals \<Rightarrow> env \<Rightarrow> nat option \<Rightarrow> error + html \<times> string" where
  "department_report_html ext env dept_id =
     (case get_departments env dept_id of
        Inl e \<Rightarrow> Inl e
      | Inr (departments, dept_name) \<Rightarrow>
          if departments = [] then Inl (UserError ''No departments found.'')
          else
            (let students = fetch_students env dept_id dept_name;
                 df = build_dataframe students
             in render_department_html ext dept_name df))"

text \<open>
  The whole function, with steps 7 and 8. It returns the environment as it is afterwards
  and either the error raised or the action.
\<close>

definition print_department_report ::
  "externals \<Rightarrow> env \<Rightarrow> nat option \<Rightarrow> env \<times> (error + action)" where
  "print_department_report ext env dept_id =
     (case department_report_html ext env dept_id of
        Inl e \<Rightarrow> (env, Inl e)
      | Inr (html, dept_name) \<Rightarrow>
          (case create_pdf ext html of
             Inl e \<Rightarrow> (env, Inl e)
           | Inr pdf_data \<Rightarrow>
               (case create_attachment env
                       \<lparr>att_id = 0,
                        att_name = ''Department_Report_'' @ replace_spaces dept_name @ ''.pdf'',
                        att_type = ''binary'',
                        att_datas = b64encode ext pdf_data,
                        att_mimetype = ''application/pdf'',
                        att_res_model = ''student'',
                        att_res_id = 0\<rparr> of
                  (env', a) \<Rightarrow> (env', Inr (download_action a)))))"


subsection \<open>\<open>generate_single_student_report\<close>\<close>

definition PERSONAL_INFO_COLUMNS :: "column list" where
  "PERSONAL_INFO_COLUMNS =
     [Col_Name, Col_Father_Name, Col_Age, Col_Gender, Col_Department, Col_Grade]"

definition ACADEMIC_INFO_COLUMNS :: "column list" where
  "ACADEMIC_INFO_COLUMNS = [Col_Total_Marks, Col_Obtained_Marks, Col_Percentage]"

definition EDUCATION_COLUMNS :: "column list" where
  "EDUCATION_COLUMNS = [Col_Institute, Col_Degree, Col_Passing_Year]"

text \<open>\<open>dict(student._fields['gender'].selection).get(student.gender, '-')\<close>\<close>

fun gender_label :: "gender option \<Rightarrow> string" where
  "gender_label (Some male) = ''Male''"
| "gender_label (Some female) = ''Female''"
| "gender_label None = ''-''"

definition str_or_dash :: "string \<Rightarrow> pyval" where
  "str_or_dash s = PStr (if s \<noteq> [] then s else ''-'')"

definition all_personal_data :: "student \<Rightarrow> row" where
  "all_personal_data student =
     [Col_Name \<mapsto> str_or_dash (name student),
      Col_Father_Name \<mapsto> str_or_dash (father_name student),
      Col_Age \<mapsto> (if age student \<noteq> 0 then PInt (age student) else PStr ''-''),
      Col_Gender \<mapsto> PStr (gender_label (gender student)),
      Col_Department \<mapsto>
        PStr (case department_id student of Some d \<Rightarrow> row_name d | None \<Rightarrow> ''-''),
      Col_Grade \<mapsto> str_or_dash (grade student),
      Col_Total_Marks \<mapsto>
        (if total_marks student \<noteq> 0 then PFloat (total_marks student) else PStr ''-''),
      Col_Obtained_Marks \<mapsto>
        (if obtained_marks student \<noteq> 0 then PFloat (obtained_marks student) else PStr ''-''),
      Col_Percentage \<mapsto>
        PStr (if percentage student \<noteq> 0 then format_fixed 2 (percentage student) @ ''%''
              else ''0.00%''),
      Col_Address \<mapsto> str_or_dash (address student)]"

text \<open>\<^verbatim>\<open>for col in COLUMNS: row[col] = all_personal_data.get(col, '-')\<close>\<close>

definition select_columns :: "column list \<Rightarrow> row \<Rightarrow> row" where
  "select_columns cols d =
     (\<lambda>c. if c \<in> set cols then Some (case d c of Some v \<Rightarrow> v | None \<Rightarrow> PStr ''-'') else None)"

definition edu_row :: "education \<Rightarrow> row" where
  "edu_row edu =
     [Col_Institute \<mapsto> PStr (case institute edu of Some i \<Rightarrow> row_name i | None \<Rightarrow> ''-''),
      Col_Degree \<mapsto> PStr (case degree edu of Some g \<Rightarrow> row_name g | None \<Rightarrow> ''-''),
      Col_Passing_Year \<mapsto>
        (if passing_year edu \<noteq> 0 then PInt (passing_year edu) else PStr ''-'')]"

text \<open>
  One of the three tables: a header, then a row per row of the frame with
  \<^verbatim>\<open>value = row[col] if pd.notna(row[col]) else '-'\<close> in each cell, or the placeholder
  row when the frame is empty.
\<close>

definition section_cell :: "externals \<Rightarrow> row \<Rightarrow> column \<Rightarrow> error + string" where
  "section_cell ext r col =
     (case row_get r col of
        Inl e \<Rightarrow> Inl e
      | Inr v \<Rightarrow> Inr (if \<not> isna v then py_str ext v else ''-''))"

definition section_row :: "externals \<Rightarrow> column list \<Rightarrow> row \<Rightarrow> error + html_row" where
  "section_row ext cols r =
     (case map_result (section_cell ext r) cols of
        Inl e \<Rightarrow> Inl e
      | Inr cells \<Rightarrow> Inr (Data_row cells))"

definition section_table ::
  "externals \<Rightarrow> column list \<Rightarrow> dataframe \<Rightarrow> string \<Rightarrow> error + html_elem" where
  "section_table ext cols df empty_message =
     (case (if df \<noteq> [] then map_result (section_row ext cols) df
            else Inr [Empty_row (length cols) empty_message]) of
        Inl e \<Rightarrow> Inl e
      | Inr trs \<Rightarrow> Inr (Html_table (header_row cols # trs)))"

definition render_student_html :: "externals \<Rightarrow> student \<Rightarrow> error + html" where
  "render_student_html ext student =
     (let df_personal = [select_columns PERSONAL_INFO_COLUMNS (all_personal_data student)];
          df_academic = [select_columns ACADEMIC_INFO_COLUMNS (all_personal_data student)];
          df_education = map edu_row (about_education student)
      in case section_table ext PERSONAL_INFO_COLUMNS df_personal
                ''No personal information available'' of
           Inl e \<Rightarrow> Inl e
         | Inr personal \<Rightarrow>
        (case section_table ext ACADEMIC_INFO_COLUMNS df_academic
                ''No academic information available'' of
           Inl e \<Rightarrow> Inl e
         | Inr academic \<Rightarrow>
        (case section_table ext EDUCATION_COLUMNS df_education
                ''No education history available'' of
           Inl e \<Rightarrow> Inl e
         | Inr education \<Rightarrow>
             Inr [Report_title (''Student Report - ''
                    @ (if name student \<noteq> [] then name student else ''Unknown Student'')),
                  Section_title ''Personal Information'', personal,
                  Section_title ''Academic Performance'', academic,
                  Section_title ''Education History'', education])))"

definition generate_single_student_report ::
  "externals \<Rightarrow> env \<Rightarrow> student \<Rightarrow> env \<times> (error + action)" where
  "generate_single_student_report ext env student =
     (case render_student_html ext student of
        Inl e \<Rightarrow> (env, Inl e)
      | Inr html \<Rightarrow>
          (case create_pdf ext html of
             Inl e \<Rightarrow> (env, Inl e)
           | Inr pdf_data \<Rightarrow>
               (case create_attachment env
                       \<lparr>att_id = 0,
                        att_name = (if name student \<noteq> [] then name student else ''Student'')
                                   @ ''_Report.pdf'',
                        att_type = ''binary'',
                        att_datas = b64encode ext pdf_data,
                        att_mimetype = ''application/pdf'',
                        att_res_model = ''student'',
                        att_res_id = s_id student\<rparr> of
                  (env', a) \<Rightarrow> (env', Inr (download_action a)))))"

section \<open>The wizards (\<open>wizard/\<close>)\<close>

subsection \<open>\<open>StudentReportWizard\<close>\<close>

text \<open>
  The class declares three fields and one method; it has no \<open>onchange\<close> method, so a change
  of \<open>report_type\<close> in the form is the assignment of that field and nothing else.
\<close>

record report_wizard =
  rw_report_type :: report_type
  rw_student_id :: "student option"
  rw_department_id :: "department option"

definition set_report_type :: "report_type \<Rightarrow> report_wizard \<Rightarrow> report_wizard" where
  "set_report_type t w = w\<lparr>rw_report_type := t\<rparr>"

text \<open>
  The \<open>except Exception\<close> clauses wrap every error of the generator in a \<open>UserError\<close>
  with a prefix, a line break and the message of the error.
\<close>

definition wrap_error :: "string \<Rightarrow> env \<times> (error + action) \<Rightarrow> env \<times> (error + action)" where
  "wrap_error prefix res =
     (case res of
        (env', Inl e) \<Rightarrow> (env', Inl (UserError (prefix @ [CHR 0x0A] @ err_str e)))
      | (env', Inr a) \<Rightarrow> (env', Inr a))"

definition action_generate_report ::
  "externals \<Rightarrow> env \<Rightarrow> report_wizard list \<Rightarrow> env \<times> (error + action)" where
  "action_generate_report ext env self =
     (case ensure_one self of
        Inl e \<Rightarrow> (env, Inl e)
      | Inr w \<Rightarrow>
          if rw_report_type w = single then
            (case rw_student_id w of
               None \<Rightarrow> (env, Inl (UserError ''Please select a student.''))
             | Some student \<Rightarrow>
                 wrap_error ''Error generating single student report:''
                   (generate_single_student_report ext env student))
          else if rw_report_type w = department_wise then
            (case rw_department_id w of
               None \<Rightarrow> (env, Inl (UserError ''Please select a department.''))
             | Some d \<Rightarrow>
                 wrap_error ''Error generating department report:''
                   (print_department_report ext env (Some (row_id d))))
          else (env, Inl (UserError ''Invalid report type selected.'')))"

text \<open>
  The wizard that the window action of \<open>action_open_report_choice\<close> opens: its fields
  take the defaults of the context, the records looked up by id.
\<close>

definition open_report_wizard :: "env \<Rightarrow> defaults \<Rightarrow> report_wizard" where
  "open_report_wizard env ctx =
     \<lparr>rw_report_type = default_report_type ctx,
      rw_student_id =
        (case default_student_id ctx of
           None \<Rightarrow> None
         | Some i \<Rightarrow> find (\<lambda>s. s_id s = i) (student_table env)),
      rw_department_id =
        (case default_department_id ctx of
           None \<Rightarrow> None
         | Some i \<Rightarrow> find (\<lambda>d. row_id d = i) (department_table env))\<rparr>"

subsection \<open>\<open>StudentEmailWizard\<close>\<close>

record email_wizard =
  ew_report_type :: report_type
  ew_student_id :: "student option"
  ew_department_id :: "department option"
  email_to :: string
  phone :: string

definition onchange_report_type :: "email_wizard \<Rightarrow> email_wizard" where
  "onchange_report_type self =
     (if ew_report_type self = single then self\<lparr>ew_department_id := None\<rparr>
      else if ew_report_type self = department_wise then self\<lparr>ew_student_id := None\<rparr>
      else self)"

text \<open>
  \<open>action_send_email\<close> loops over the record set and returns or raises in the first
  iteration; on an empty record set the loop body never runs and the method returns
  \<open>None\<close>.
\<close>

definition action_send_email :: "email_wizard list \<Rightarrow> error + action option" where
  "action_send_email self =
     (case self of
        [] \<Rightarrow> Inr None
      | wizard # _ \<Rightarrow>
          if email_to wizard = [] then Inl (UserError ''Recipient email is required!'')
          else if ew_report_type wizard = single \<and> ew_student_id wizard = None
          then Inl (UserError ''Please select a student for the single report.'')
          else if ew_report_type wizard = department_wise \<and> ew_department_id wizard = None
          then Inl (UserError ''Please select a department for the department report.'')
          else Inr (Some (Notification ''Success!''
                            (''Report sent successfully to '' @ email_to wizard @ ''.'')
                            ''success'' False True)))"


section \<open>Definitions for the statements\<close>

text \<open>One iteration of the seeding loop: the lookup and the conditional insert.\<close>

definition seed_step :: "table \<Rightarrow> string \<Rightarrow> table" where
  "seed_step t n =
     (case search_name t n of
        (found, t') \<Rightarrow> if found = [] then create_name t' n else t')"

text \<open>The three seeding methods, each with its list of names and the length of the list.\<close>

definition seedings :: "((table \<Rightarrow> table) \<times> string list \<times> nat) list" where
  "seedings =
     [(Department_init, department_names, 6), (Institute_init, institute_names, 5),
      (Degree_init, degree_names, 4)]"

text \<open>
  Collaborators for the examples: a PDF engine that succeeds with some bytes, and one
  that raises. \<open>str\<close> of a float is not computed; the examples print the word \<open>float\<close>
  in its place (only the student report prints floats this way).
\<close>

definition ext_ok :: externals where
  "ext_ok =
     \<lparr>pisa_CreatePDF = (\<lambda>h. PisaStatus 0 ''%PDF''), str_float = (\<lambda>x. ''float''),
      float_of_str = (\<lambda>s. None), b64encode = (\<lambda>s. s)\<rparr>"

definition ext_raise :: externals where
  "ext_raise = ext_ok\<lparr>pisa_CreatePDF := (\<lambda>h. PisaRaises ''out of memory'')\<rparr>"

text \<open>
  Example data: two departments, of which only the first has students; two students of
  that department; the environment that holds them and no attachment.
\<close>

definition dept_math :: department where
  "dept_math = \<lparr>row_id = 1, row_name = ''MATH''\<rparr>"

definition dept_bba :: department where
  "dept_bba = \<lparr>row_id = 2, row_name = ''BBA''\<rparr>"

definition student_ali :: student where
  "student_ali =
     \<lparr>s_id = 1, active = True, name = ''Ali'', father_name = ''Umar'', age = 20, grade = ''A'',
      address = [], department_id = Some dept_math, about_education = [], total_marks = 200,
      obtained_marks = 175, percentage = 175 / 2, gender = Some male\<rparr>"

definition student_sara :: student where
  "student_sara =
     \<lparr>s_id = 2, active = True, name = ''Sara'', father_name = [], age = 0, grade = ''B'',
      address = [], department_id = Some dept_math, about_education = [], total_marks = 100,
      obtained_marks = 0, percentage = 0, gender = Some female\<rparr>"

definition env_two :: env where
  "env_two =
     \<lparr>department_table = [dept_math, dept_bba], student_table = [student_ali, student_sara],
      attachment_table = []\<rparr>"


section \<open>The derived percentage\<close>

lemma compute_percentage_record_ok: "percentage_ok rnd (compute_percentage_record rnd s)"
  by (simp add: percentage_ok_def compute_percentage_record_def)

lemma assign_frame:
  "\<not> depends_percentage v \<Longrightarrow>
     total_marks (assign s v) = total_marks s \<and> obtained_marks (assign s v) = obtained_marks s"
  by (cases v) simp_all

lemma assign_percentage: "percentage (assign s v) = percentage s"
  by (cases v) simp_all

lemma foldl_assign_percentage: "percentage (foldl assign s vals) = percentage s"
  by (induction vals arbitrary: s) (simp_all add: assign_percentage)

lemma foldl_assign_frame:
  "\<not> list_ex depends_percentage vals \<Longrightarrow>
     total_marks (foldl assign s vals) = total_marks s \<and>
     obtained_marks (foldl assign s vals) = obtained_marks s"
  by (induction vals arbitrary: s) (simp_all add: assign_frame)

lemma orm_write_ok: "percentage_ok rnd s \<Longrightarrow> percentage_ok rnd (orm_write rnd s vals)"
proof (cases "list_ex depends_percentage vals")
  case True
  then show ?thesis
    by (simp add: orm_write_def compute_percentage_record_ok)
next
  case False
  assume ok: "percentage_ok rnd s"
  from False have "orm_write rnd s vals = foldl assign s vals"
    by (simp add: orm_write_def)
  with ok foldl_assign_frame [OF False, of s] foldl_assign_percentage [of s vals]
  show ?thesis
    by (simp add: percentage_ok_def)
qed

lemma orm_create_ok: "percentage_ok rnd (orm_create rnd i vals)"
  by (simp add: orm_create_def compute_percentage_record_ok)

lemma writes_ok: "percentage_ok rnd s \<Longrightarrow> percentage_ok rnd (foldl (orm_write rnd) s ws)"
  by (induction ws arbitrary: s) (simp_all add: orm_write_ok)

text \<open>
  Claim C1. \<open>compute_percentage\<close> stores \<open>obtained_marks / total_marks * 100\<close> (in float
  arithmetic) when \<open>total_marks > 0\<close> and 0 otherwise, for each record of the record set.
  A record that was created and then written any number of times satisfies the
  invariant: a write that carries \<open>total_marks\<close> or \<open>obtained_marks\<close> recomputes the
  field, and no assignment of a write changes it.
\<close>

theorem percentage_invariant:
  "percentage (compute_percentage_record rnd s) =
     (if total_marks s > 0
      then py_mul rnd (py_truediv rnd (obtained_marks s) (total_marks s)) 100 else 0)
   \<and> list_all (percentage_ok rnd) (compute_percentage rnd self)
   \<and> percentage_ok rnd (foldl (orm_write rnd) (orm_create rnd i vals) ws)
   \<and> (list_ex depends_percentage vals \<longrightarrow>
        orm_write rnd s vals = compute_percentage_record rnd (foldl assign s vals))
   \<and> percentage (foldl assign s vals) = percentage s"
proof -
  have "list_all (percentage_ok rnd) (compute_percentage rnd self)"
    by (simp add: compute_percentage_def list_all_iff compute_percentage_record_ok)
  moreover have "percentage_ok rnd (foldl (orm_write rnd) (orm_create rnd i vals) ws)"
    by (rule writes_ok) (rule orm_create_ok)
  ultimately show ?thesis
    by (simp add: compute_percentage_record_def orm_write_def foldl_assign_percentage Let_def)
qed

text \<open>
  With exact arithmetic: 175 of 200 marks are 87.5 percent; a record created with 50 of
  100 marks has percentage 0 once its total is written as 0.
\<close>

theorem percentage_invariant_witness:
  "percentage (compute_percentage_record (\<lambda>x. x)
       (new_student 1\<lparr>total_marks := 200, obtained_marks := 175\<rparr>)) = 175 / 2
   \<and> percentage (foldl (orm_write (\<lambda>x. x))
         (orm_create (\<lambda>x. x) 1 [Val_name ''Ali'', Val_total_marks 100, Val_obtained_marks 50])
         [[Val_obtained_marks 80], [Val_active False], [Val_total_marks 0]]) = 0
   \<and> percentage (orm_write (\<lambda>x. x) (new_student 1)
         [Val_total_marks 50, Val_obtained_marks 20]) = 40"
  using percentage_invariant [of "\<lambda>x. x"
      "new_student 1\<lparr>total_marks := 200, obtained_marks := 175\<rparr>"
      "[]" 1 "[Val_name ''Ali'', Val_total_marks 100, Val_obtained_marks 50]"
      "[[Val_obtained_marks 80], [Val_active False], [Val_total_marks 0]]"]
    percentage_invariant [of "\<lambda>x. x" "new_student 1" "[]" 1
      "[Val_total_marks 50, Val_obtained_marks 20]" "[]"]
  by (simp add: percentage_ok_def new_student_def py_mul_def py_truediv_def orm_write_def
      orm_create_def compute_percentage_record_def)

section \<open>Archive and restore\<close>

lemma ensure_one_single: "ensure_one [r] = Inr r"
  by (simp add: ensure_one_def)

lemma ensure_one_other:
  "length self \<noteq> 1 \<Longrightarrow> ensure_one self = Inl (ValueError ''Expected singleton'')"
  by (cases self) (auto simp: ensure_one_def split: list.splits)

text \<open>
  Claim C9. On one record, \<open>action_delete_record\<close> leaves the record with \<open>active\<close> false
  and every other field as it was, and returns the notification "Archived!";
  \<open>action_restore_record\<close> does the same with \<open>active\<close> true and "Restored!". On a record
  set that does not have exactly one record both raise and change nothing.
\<close>

theorem archive_restore_frame:
  "action_delete_record rnd [s] =
     ([s\<lparr>active := False\<rparr>],
      Inr (Notification ''Archived!'' (''Student '' @ name s @ '' has been archived.'')
             ''warning'' False False))
   \<and> action_restore_record rnd [s] =
     ([s\<lparr>active := True\<rparr>],
      Inr (Notification ''Restored!'' (''Student '' @ name s @ '' has been restored.'')
             ''success'' False False))
   \<and> (length self \<noteq> 1 \<longrightarrow>
        action_delete_record rnd self = (self, Inl (ValueError ''Expected singleton'')) \<and>
        action_restore_record rnd self = (self, Inl (ValueError ''Expected singleton'')))"
  by (auto simp: action_delete_record_def action_restore_record_def ensure_one_single
      ensure_one_other orm_write_def)

theorem archive_restore_frame_witness:
  "fst (action_delete_record (\<lambda>x. x) [new_student 1\<lparr>name := ''Ali'', percentage := 40\<rparr>])
     = [new_student 1\<lparr>name := ''Ali'', percentage := 40, active := False\<rparr>]
   \<and> length [new_student 1, new_student 2] \<noteq> 1
   \<and> action_delete_record (\<lambda>x. x) [new_student 1, new_student 2] =
       ([new_student 1, new_student 2], Inl (ValueError ''Expected singleton''))
   \<and> action_restore_record (\<lambda>x. x) [new_student 1, new_student 2] =
       ([new_student 1, new_student 2], Inl (ValueError ''Expected singleton''))"
  using archive_restore_frame [of "\<lambda>x. x" "new_student 1\<lparr>name := ''Ali'', percentage := 40\<rparr>"
      "[new_student 1, new_student 2]"]
  by (simp add: new_student_def)


section \<open>Seeding of the lookup tables\<close>


lemma init_loop_Cons: "init_loop (n # ns) t = init_loop ns (seed_step t n)"
  by (simp add: seed_step_def split: prod.splits)

lemma filter_empty_length: "(take 1 (filter P xs) = []) = (length (filter P xs) = 0)"
  by (cases "filter P xs") simp_all

lemma name_count_step:
  "name_count (seed_step t n) m = (if m = n \<and> name_count t n = 0 then 1 else name_count t m)"
  by (auto simp: seed_step_def search_name_def create_name_def name_count_def filter_empty_length)

lemma search_count_step:
  "call_count (seed_step t n) (Search m) = call_count t (Search m) + (if m = n then 1 else 0)"
  by (auto simp: seed_step_def search_name_def create_name_def call_count_def)

lemma create_count_step:
  "call_count (seed_step t n) (Create m) =
     call_count t (Create m) + (if m = n \<and> name_count t n = 0 then 1 else 0)"
  by (auto simp: seed_step_def search_name_def create_name_def call_count_def name_count_def filter_empty_length)

lemma rows_step_present: "name_count t n \<noteq> 0 \<Longrightarrow> rows (seed_step t n) = rows t"
  by (auto simp: seed_step_def search_name_def create_name_def name_count_def filter_empty_length)

lemma rows_step_prefix: "take (length (rows t)) (rows (seed_step t n)) = rows t"
  by (auto simp: seed_step_def search_name_def create_name_def)

lemma length_rows_step: "length (rows t) \<le> length (rows (seed_step t n))"
  by (auto simp: seed_step_def search_name_def create_name_def)

lemma name_count_init_loop:
  "name_count (init_loop ns t) m =
     (if m \<in> set ns \<and> name_count t m = 0 then 1 else name_count t m)"
proof (induction ns arbitrary: t)
  case Nil
  show ?case by simp
next
  case (Cons n ns)
  show ?case
    unfolding init_loop_Cons Cons.IH name_count_step by auto
qed

lemma search_count_init_loop:
  "call_count (init_loop ns t) (Search m) = call_count t (Search m) + count_list ns m"
proof (induction ns arbitrary: t)
  case Nil
  show ?case by simp
next
  case (Cons n ns)
  show ?case
    unfolding init_loop_Cons Cons.IH search_count_step by auto
qed

lemma create_count_init_loop:
  "call_count (init_loop ns t) (Create m) =
     call_count t (Create m) + (if m \<in> set ns \<and> name_count t m = 0 then 1 else 0)"
proof (induction ns arbitrary: t)
  case Nil
  show ?case by simp
next
  case (Cons n ns)
  show ?case
    unfolding init_loop_Cons Cons.IH create_count_step name_count_step by auto
qed

lemma rows_init_loop_present:
  "\<forall>n \<in> set ns. name_count t n \<noteq> 0 \<Longrightarrow> rows (init_loop ns t) = rows t"
proof (induction ns arbitrary: t)
  case Nil
  show ?case by simp
next
  case (Cons n ns)
  from Cons.prems have r: "rows (seed_step t n) = rows t"
    by (simp add: rows_step_present)
  then have "name_count (seed_step t n) m = name_count t m" for m
    by (simp add: name_count_def)
  with Cons.prems have "\<forall>m \<in> set ns. name_count (seed_step t n) m \<noteq> 0"
    by simp
  then have "rows (init_loop ns (seed_step t n)) = rows (seed_step t n)"
    by (rule Cons.IH)
  with r show ?case
    by (simp add: init_loop_Cons del: init_loop.simps)
qed

lemma rows_init_loop_prefix:
  "length (rows t) \<le> length (rows (init_loop ns t)) \<and>
   take (length (rows t)) (rows (init_loop ns t)) = rows t"
proof (induction ns arbitrary: t)
  case Nil
  show ?case by simp
next
  case (Cons n ns)
  let ?t = "seed_step t n"
  from Cons.IH [of ?t] have le: "length (rows ?t) \<le> length (rows (init_loop ns ?t))"
    and tk: "take (length (rows ?t)) (rows (init_loop ns ?t)) = rows ?t"
    by simp_all
  have "take (length (rows t)) (rows (init_loop ns ?t))
          = take (length (rows t)) (take (length (rows ?t)) (rows (init_loop ns ?t)))"
    using length_rows_step [of t n] by (simp add: min_def)
  also have "\<dots> = rows t"
    by (simp only: tk rows_step_prefix)
  finally show ?case
    using le length_rows_step [of t n] by (simp add: init_loop_Cons del: init_loop.simps)
qed

lemma rows_init_loop_again: "rows (init_loop ns (init_loop ns t)) = rows (init_loop ns t)"
  by (rule rows_init_loop_present) (simp add: name_count_init_loop)

lemma rows_init_loop_funpow:
  "rows ((init_loop ns ^^ Suc k) t) = rows (init_loop ns t)"
proof (induction k)
  case 0
  show ?case by simp
next
  case (Suc k)
  have "rows ((init_loop ns ^^ Suc (Suc k)) t) = rows (init_loop ns (init_loop ns ((init_loop ns ^^ k) t)))"
    by simp
  also have "\<dots> = rows (init_loop ns ((init_loop ns ^^ k) t))"
    by (rule rows_init_loop_again)
  also have "\<dots> = rows (init_loop ns t)"
    using Suc.IH by simp
  finally show ?case .
qed

lemma name_count_rows: "rows s = rows t \<Longrightarrow> name_count s n = name_count t n"
  by (simp add: name_count_def)

lemma init_eqs:
  "Department_init = init_loop department_names"
  "Institute_init = init_loop institute_names"
  "Degree_init = init_loop degree_names"
  by (rule ext, simp only: Department_init_def Institute_init_def Degree_init_def)+

lemma names_facts:
  "distinct department_names \<and> length department_names = 6"
  "distinct institute_names \<and> length institute_names = 5"
  "distinct degree_names \<and> length degree_names = 4"
  by (simp_all add: department_names_def institute_names_def degree_names_def)

lemma seedings_cases:
  "(init, names, c) \<in> set seedings \<Longrightarrow>
     (init = Department_init \<and> names = department_names \<and> c = 6) \<or>
     (init = Institute_init \<and> names = institute_names \<and> c = 5) \<or>
     (init = Degree_init \<and> names = degree_names \<and> c = 4)"
  by (simp add: seedings_def)

lemma seedings_init_loop:
  "(init, names, c) \<in> set seedings \<Longrightarrow> init = init_loop names \<and> distinct names \<and> length names = c"
  using init_eqs names_facts by (auto dest!: seedings_cases)

lemma count_list_distinct: "distinct xs \<Longrightarrow> count_list xs x = (if x \<in> set xs then 1 else 0)"
  by (induction xs) auto

lemma rows_step_absent:
  "name_count t n = 0 \<Longrightarrow> map row_name (rows (seed_step t n)) = map row_name (rows t) @ [n]"
  by (auto simp: seed_step_def search_name_def create_name_def name_count_def filter_empty_length)

lemma names_init_loop_absent:
  "distinct ns \<Longrightarrow> \<forall>n \<in> set ns. name_count t n = 0 \<Longrightarrow>
     map row_name (rows (init_loop ns t)) = map row_name (rows t) @ ns"
proof (induction ns arbitrary: t)
  case Nil
  show ?case by simp
next
  case (Cons n ns)
  from Cons.prems have "\<forall>m \<in> set ns. name_count (seed_step t n) m = 0"
    by (auto simp: name_count_step)
  with Cons.prems have "map row_name (rows (init_loop ns (seed_step t n)))
      = map row_name (rows (seed_step t n)) @ ns"
    by (intro Cons.IH) simp_all
  with Cons.prems show ?case
    by (simp add: init_loop_Cons rows_step_absent del: init_loop.simps)
qed

lemma seedings_empty:
  assumes "(init, names, c) \<in> set seedings"
  shows "map row_name (rows (init \<lparr>rows = [], calls = []\<rparr>)) = names"
proof -
  from assms have "init = init_loop names" and "distinct names"
    by (simp_all add: seedings_init_loop)
  then show ?thesis
    using names_init_loop_absent [of names "\<lparr>rows = [], calls = []\<rparr>"]
    by (simp add: name_count_def)
qed

text \<open>
  Claim C6, as amended. For each of \<open>Department.init\<close>, \<open>Institute.init\<close> and
  \<open>Degree.init\<close>, on any table: a run adds one row for each canonical name that no row
  carries and none for a name that some row carries, and leaves the existing rows in
  place; running it any number of times gives the rows that one run gives; when no
  canonical name occurs twice before, each occurs exactly once after; from the empty
  table the rows are the canonical names (6, 5 and 4 of them, all different); and a run
  makes exactly one lookup per canonical name and one insert for each name that was
  missing, none for the others.
\<close>

theorem seeding_adds_missing_names:
  assumes "(init, names, c) \<in> set seedings"
  shows "name_count (init t) n = (if n \<in> set names \<and> name_count t n = 0 then 1 else name_count t n)
    \<and> take (length (rows t)) (rows (init t)) = rows t
    \<and> rows ((init ^^ Suc k) t) = rows (init t)
    \<and> ((\<forall>m \<in> set names. name_count t m \<le> 1) \<longrightarrow>
         (\<forall>m \<in> set names. name_count ((init ^^ Suc k) t) m = 1))
    \<and> length names = c \<and> distinct names
    \<and> map row_name (rows (init \<lparr>rows = [], calls = []\<rparr>)) = names
    \<and> call_count (init t) (Search n) = call_count t (Search n) + (if n \<in> set names then 1 else 0)
    \<and> call_count (init t) (Create n) =
        call_count t (Create n) + (if n \<in> set names \<and> name_count t n = 0 then 1 else 0)"
proof -
  from assms have init: "init = init_loop names"
    and "distinct names" and "length names = c"
    by (simp_all add: seedings_init_loop)
  have "name_count (init t) n = (if n \<in> set names \<and> name_count t n = 0 then 1 else name_count t n)"
    unfolding init by (rule name_count_init_loop)
  moreover have "take (length (rows t)) (rows (init t)) = rows t"
    unfolding init by (simp add: rows_init_loop_prefix)
  moreover have again: "rows ((init ^^ Suc k) t) = rows (init t)"
    unfolding init by (rule rows_init_loop_funpow)
  moreover have "(\<forall>m \<in> set names. name_count t m \<le> 1) \<longrightarrow>
         (\<forall>m \<in> set names. name_count ((init ^^ Suc k) t) m = 1)"
  proof (intro impI ballI)
    fix m assume le: "\<forall>m \<in> set names. name_count t m \<le> 1" and m: "m \<in> set names"
    have "name_count ((init ^^ Suc k) t) m = name_count (init t) m"
      using again by (rule name_count_rows)
    also have "\<dots> = (if m \<in> set names \<and> name_count t m = 0 then 1 else name_count t m)"
      unfolding init by (rule name_count_init_loop)
    also from le m have "\<dots> = 1"
      by (auto simp: le_Suc_eq)
    finally show "name_count ((init ^^ Suc k) t) m = 1" .
  qed
  moreover note \<open>length names = c\<close> \<open>distinct names\<close>
  moreover from assms have "map row_name (rows (init \<lparr>rows = [], calls = []\<rparr>)) = names"
    by (rule seedings_empty)
  moreover have "call_count (init t) (Search n) = call_count t (Search n) + (if n \<in> set names then 1 else 0)"
    unfolding init search_count_init_loop
    using \<open>distinct names\<close> by (simp add: count_list_distinct)
  moreover have "call_count (init t) (Create n) =
        call_count t (Create n) + (if n \<in> set names \<and> name_count t n = 0 then 1 else 0)"
    unfolding init by (rule create_count_init_loop)
  ultimately show ?thesis
    by (intro conjI) assumption+
qed


theorem seeding_adds_missing_names_witness:
  "(Department_init, department_names, 6) \<in> set seedings
   \<and> name_count (Department_init \<lparr>rows = [], calls = []\<rparr>) ''MATH'' = 1
   \<and> name_count ((Department_init ^^ Suc 2) \<lparr>rows = [], calls = []\<rparr>) ''BBA'' = 1
   \<and> map row_name (rows (Department_init \<lparr>rows = [], calls = []\<rparr>)) =
       [''MATH'', ''BSCS'', ''PHYSICS'', ''BBA'', ''COMMERCE'', ''ALL'']
   \<and> call_count (Department_init \<lparr>rows = [], calls = []\<rparr>) (Search ''MATH'') = 1
   \<and> call_count (Department_init \<lparr>rows = [], calls = []\<rparr>) (Create ''MATH'') = 1"
proof -
  have mem: "(Department_init, department_names, 6) \<in> set seedings"
    by (simp add: seedings_def)
  have bba: "''BBA'' \<in> set department_names" and math: "''MATH'' \<in> set department_names"
    by (simp_all add: department_names_def)
  have none: "name_count \<lparr>rows = [], calls = []\<rparr> m = 0"
    "call_count \<lparr>rows = [], calls = []\<rparr> c = 0" for m c
    by (simp_all add: name_count_def call_count_def)
  from seeding_adds_missing_names [OF mem, of "\<lparr>rows = [], calls = []\<rparr>" "''MATH''" 2]
  show ?thesis
    using mem bba math by (simp add: none department_names_def del: funpow.simps)
qed

text \<open>
  The claim as stated says "from any state": a table that has two rows named \<open>MATH\<close>
  still has two after seeding.
\<close>

theorem seeding_keeps_duplicates_counterexample:
  "''MATH'' \<in> set department_names
   \<and> name_count (Department_init
        \<lparr>rows = [\<lparr>row_id = 1, row_name = ''MATH''\<rparr>, \<lparr>row_id = 2, row_name = ''MATH''\<rparr>],
         calls = []\<rparr>) ''MATH'' = 2"
proof -
  let ?t = "\<lparr>rows = [\<lparr>row_id = 1, row_name = ''MATH''\<rparr>, \<lparr>row_id = 2, row_name = ''MATH''\<rparr>],
         calls = []\<rparr>"
  have "name_count (Department_init ?t) ''MATH'' =
      (if ''MATH'' \<in> set department_names \<and> name_count ?t ''MATH'' = 0 then 1
       else name_count ?t ''MATH'')"
    unfolding Department_init_def by (rule name_count_init_loop)
  then show ?thesis
    by (simp add: name_count_def department_names_def)
qed


section \<open>Cell formatting\<close>


lemma py_int_Ints: "(of_int (py_int x) = x) = (x \<in> \<int>)"
  by (auto simp: py_int_def Ints_def)

lemma py_int_Ints': "(x = of_int (py_int x)) = (x \<in> \<int>)"
  using py_int_Ints [of x] by auto

lemma py_int_floor: "x \<in> \<int> \<Longrightarrow> py_int x = \<lfloor>x\<rfloor>"
  by (auto simp: py_int_def Ints_def)

lemma digit_char_digit: "digit_char n \<in> set ''0123456789''"
proof -
  have "n mod 10 < length ''0123456789''" by simp
  then show ?thesis
    unfolding digit_char_def by (rule nth_mem)
qed

lemma str_nat_digits: "set (str_nat n) \<subseteq> set ''0123456789''"
proof (induction n rule: str_nat.induct)
  case (1 n)
  show ?case
  proof (cases "n < 10")
    case True
    then show ?thesis
      using digit_char_digit [of n] by (subst str_nat.simps) simp
  next
    case False
    with 1 digit_char_digit [of n] show ?thesis
      by (subst str_nat.simps) simp
  qed
qed

lemma str_nat_length: "n < 10 ^ d \<Longrightarrow> 0 < d \<Longrightarrow> length (str_nat n) \<le> d"
proof (induction n arbitrary: d rule: str_nat.induct)
  case (1 n)
  show ?case
  proof (cases "n < 10")
    case True
    with \<open>0 < d\<close> show ?thesis
      by (subst str_nat.simps) simp
  next
    case False
    obtain e where d: "d = Suc e"
      using \<open>0 < d\<close> by (cases d) auto
    with False \<open>n < 10 ^ d\<close> have "0 < e"
      by (cases e) auto
    moreover from d \<open>n < 10 ^ d\<close> have "n div 10 < 10 ^ e"
      by (simp add: less_mult_imp_div_less mult.commute)
    ultimately have "length (str_nat (n div 10)) \<le> e"
      using False by (intro 1) simp_all
    with False d show ?thesis
      by (subst str_nat.simps) simp
  qed
qed

lemma str_nat_not_empty: "str_nat n \<noteq> []"
  by (subst str_nat.simps) simp

lemma length_zfill: "length s \<le> w \<Longrightarrow> length (zfill w s) = w"
  by (simp add: zfill_def)

lemma zfill_digits: "set s \<subseteq> set ''0123456789'' \<Longrightarrow> set (zfill w s) \<subseteq> set ''0123456789''"
  by (auto simp: zfill_def)

lemma round_half_even_near: "\<bar>of_int (round_half_even q) - q\<bar> \<le> 1 / 2"
proof -
  define f where "f = \<lfloor>q\<rfloor>"
  define e where "e = q - of_int f"
  have e: "0 \<le> e" "e < 1"
    unfolding e_def f_def by linarith+
  have r: "round_half_even q =
      (if e < 1 / 2 then f else if 1 / 2 < e then f + 1 else if even f then f else f + 1)"
    by (simp add: round_half_even_def Let_def f_def e_def)
  have "of_int (round_half_even q) - q = of_int (round_half_even q) - of_int f - e"
    by (simp add: e_def)
  with e show ?thesis
    unfolding r by (auto simp: abs_if)
qed

lemma round_half_even_nonneg: "0 \<le> q \<Longrightarrow> 0 \<le> round_half_even q"
  by (auto simp: round_half_even_def Let_def)

lemma format_fixed_shape:
  assumes "0 < d"
  shows "\<exists>n ip fp. format_fixed d x = (if x < 0 then ''-'' else '''') @ ip @ ''.'' @ fp
          \<and> ip = str_nat (n div 10 ^ d) \<and> ip \<noteq> [] \<and> length fp = d
          \<and> set (ip @ fp) \<subseteq> set ''0123456789''
          \<and> \<bar>of_nat n - \<bar>x\<bar> * 10 ^ d\<bar> \<le> 1 / 2"
proof -
  define n where "n = nat (round_half_even (\<bar>x\<bar> * 10 ^ d))"
  define fp where "fp = zfill d (str_nat (n mod 10 ^ d))"
  have "0 \<le> round_half_even (\<bar>x\<bar> * 10 ^ d)"
    by (rule round_half_even_nonneg) simp
  then have "(of_nat n :: rat) = of_int (round_half_even (\<bar>x\<bar> * 10 ^ d))"
    by (simp add: n_def)
  then have near: "\<bar>of_nat n - \<bar>x\<bar> * 10 ^ d\<bar> \<le> 1 / 2"
    using round_half_even_near [of "\<bar>x\<bar> * 10 ^ d"] by simp
  have "length (str_nat (n mod 10 ^ d)) \<le> d"
    using assms by (intro str_nat_length) simp_all
  then have len: "length fp = d"
    unfolding fp_def by (rule length_zfill)
  have dig: "set (str_nat (n div 10 ^ d) @ fp) \<subseteq> set ''0123456789''"
    using str_nat_digits [of "n div 10 ^ d"] zfill_digits [OF str_nat_digits, of d "n mod 10 ^ d"]
    unfolding fp_def by simp
  have "format_fixed d x = (if x < 0 then ''-'' else '''') @ str_nat (n div 10 ^ d) @ ''.'' @ fp"
    using assms by (simp add: format_fixed_def n_def fp_def Let_def)
  with len dig near str_nat_not_empty [of "n div 10 ^ d"] show ?thesis
    by blast
qed

lemma format_value_empty: "isna v \<or> v = PStr [] \<Longrightarrow> format_value ext c v = ''-''"
  by (auto simp: format_value_def)

lemma format_value_percentage:
  "format_value ext Col_Percentage (PFloat x) = format_fixed 2 x @ ''%''"
  "format_value ext Col_Percentage (PInt n) = format_fixed 2 (of_int n) @ ''%''"
  by (simp_all add: format_value_def)

lemma format_value_number:
  assumes "c \<in> {Col_Age, Col_Total_Marks, Col_Obtained_Marks}"
  shows "format_value ext c (PInt n) = str_int n"
    and "x \<in> \<int> \<Longrightarrow> format_value ext c (PFloat x) = str_int \<lfloor>x\<rfloor>"
    and "x \<notin> \<int> \<Longrightarrow> format_value ext c (PFloat x) = format_fixed 1 x"
  using assms by (auto simp: format_value_def py_int_Ints' py_int_floor)

text \<open>
  Claim C4. For a cell \<open>v\<close> of a row in column \<open>c\<close>, \<open>_format_cell_value\<close> returns
  \<open>-\<close> when the cell is \<open>None\<close>, \<open>NaN\<close> or the empty string; in the Percentage column
  a float in fixed notation with two decimals and a trailing \<open>%\<close>; in the Age, Total Marks
  and Obtained Marks columns a float without fractional part, or an int, as the integer,
  and any other float in fixed notation with one decimal. Fixed notation with \<open>d\<close>
  decimals is: an optional minus sign, at least one digit, a point and exactly \<open>d\<close>
  digits, which denote the multiple of \<open>10 ^ -d\<close> nearest to the value.
\<close>

theorem format_cell_value_rules:
  assumes "r c = Some v"
  shows "(isna v \<or> v = PStr [] \<longrightarrow> format_cell_value ext r c = Inr ''-'')
    \<and> (c = Col_Percentage \<and> v = PFloat x \<longrightarrow>
         format_cell_value ext r c = Inr (format_fixed 2 x @ ''%''))
    \<and> (c \<in> {Col_Age, Col_Total_Marks, Col_Obtained_Marks} \<and> v = PFloat x \<and> x \<in> \<int> \<longrightarrow>
         format_cell_value ext r c = Inr (str_int \<lfloor>x\<rfloor>))
    \<and> (c \<in> {Col_Age, Col_Total_Marks, Col_Obtained_Marks} \<and> v = PFloat x \<and> x \<notin> \<int> \<longrightarrow>
         format_cell_value ext r c = Inr (format_fixed 1 x))
    \<and> (c \<in> {Col_Age, Col_Total_Marks, Col_Obtained_Marks} \<and> v = PInt n \<longrightarrow>
         format_cell_value ext r c = Inr (str_int n))
    \<and> (0 < d \<longrightarrow>
         (\<exists>m ip fp. format_fixed d x = (if x < 0 then ''-'' else []) @ ip @ ''.'' @ fp
            \<and> ip = str_nat (m div 10 ^ d) \<and> ip \<noteq> [] \<and> length fp = d
            \<and> set (ip @ fp) \<subseteq> set ''0123456789''
            \<and> \<bar>of_nat m - \<bar>x\<bar> * 10 ^ d\<bar> \<le> 1 / 2))"
    (is "?empty \<and> ?percent \<and> ?whole \<and> ?fraction \<and> ?int \<and> ?shape")
proof -
  have cell: "format_cell_value ext r c = Inr (format_value ext c v)"
    using assms by (simp add: format_cell_value_def row_get_def)
  have ?empty
    unfolding cell by (intro impI) (simp add: format_value_empty del: isna.simps)
  moreover have ?percent
    unfolding cell by (auto simp: format_value_percentage)
  moreover have ?whole
    unfolding cell by (intro impI) (auto simp: format_value_number)
  moreover have ?fraction
    unfolding cell by (intro impI) (auto simp: format_value_number)
  moreover have ?int
    unfolding cell by (intro impI) (auto simp: format_value_number)
  moreover have ?shape
    by (intro impI) (rule format_fixed_shape)
  ultimately show ?thesis
    by (intro conjI) assumption+
qed

lemma fmt_ex:
  "format_fixed 2 (175 / 2) = ''87.50''"
  "format_fixed (Suc 0) (41 / 2) = ''20.5''"
  "str_int 20 = ''20''"
  by (simp_all add: format_fixed_def round_half_even_def zfill_def str_nat.simps digit_char_def str_int_def)

text \<open>The examples of the specification: 87.5 percent, age 20.0, age 20.5, an empty cell.\<close>

theorem format_cell_value_rules_witness:
  "format_cell_value ext_ok [Col_Percentage \<mapsto> PFloat (175 / 2)] Col_Percentage = Inr ''87.50%''
   \<and> format_cell_value ext_ok [Col_Age \<mapsto> PFloat 20] Col_Age = Inr ''20''
   \<and> format_cell_value ext_ok [Col_Age \<mapsto> PFloat (41 / 2)] Col_Age = Inr ''20.5''
   \<and> format_cell_value ext_ok [Col_Grade \<mapsto> PNone] Col_Grade = Inr ''-''
   \<and> format_cell_value ext_ok [Col_Grade \<mapsto> PStr []] Col_Grade = Inr ''-''
   \<and> (\<exists>ip fp. ''87.50'' = ip @ ''.'' @ fp \<and> ip \<noteq> [] \<and> length fp = 2)"
proof -
  have half: "(41 / 2 :: rat) \<notin> \<int>"
  proof
    assume "(41 / 2 :: rat) \<in> \<int>"
    then obtain k where "(41 / 2 :: rat) = of_int k"
      by (auto elim: Ints_cases)
    then have "rat_of_int 41 = rat_of_int (2 * k)"
      by simp
    then have "(41 :: int) = 2 * k"
      by (simp only: of_int_eq_iff)
    then show False
      by presburger
  qed
  have "format_cell_value ext_ok [Col_Percentage \<mapsto> PFloat (175 / 2)] Col_Percentage
          = Inr ''87.50%''
      \<and> (\<exists>ip fp. ''87.50'' = ip @ ''.'' @ fp \<and> ip \<noteq> [] \<and> length fp = 2)"
    using format_cell_value_rules [where r = "[Col_Percentage \<mapsto> PFloat (175 / 2)]"
          and c = Col_Percentage and v = "PFloat (175 / 2)" and ext = ext_ok and x = "175 / 2"
          and n = 0 and d = 2]
    by (simp add: fmt_ex) blast
  then show ?thesis
    using
      format_cell_value_rules [where r = "[Col_Age \<mapsto> PFloat 20]" and c = Col_Age
          and v = "PFloat 20" and ext = ext_ok and x = 20 and n = 0 and d = 0]
      format_cell_value_rules [where r = "[Col_Age \<mapsto> PFloat (41 / 2)]" and c = Col_Age
          and v = "PFloat (41 / 2)" and ext = ext_ok and x = "41 / 2" and n = 0 and d = 0]
      format_cell_value_rules [where r = "[Col_Grade \<mapsto> PNone]" and c = Col_Grade
          and v = PNone and ext = ext_ok and x = 0 and n = 0 and d = 0]
      format_cell_value_rules [where r = "[Col_Grade \<mapsto> PStr []]" and c = Col_Grade
          and v = "PStr []" and ext = ext_ok and x = 0 and n = 0 and d = 0]
      half
    by (simp add: fmt_ex)
qed



section \<open>Zero-valued numbers in the department report\<close>

lemma build_row_cells:
  "build_row s Col_Name = Some (PStr (name s))"
  "build_row s Col_Father_Name = Some (PStr (father_name s))"
  "build_row s Col_Age = Some (if age s \<noteq> 0 then PInt (age s) else PStr [])"
  "build_row s Col_Grade = Some (PStr (grade s))"
  "build_row s Col_Total_Marks =
     Some (if total_marks s \<noteq> 0 then PFloat (total_marks s) else PStr [])"
  "build_row s Col_Obtained_Marks =
     Some (if obtained_marks s \<noteq> 0 then PFloat (obtained_marks s) else PStr [])"
  "build_row s Col_Percentage = Some (PFloat (percentage s))"
  by (simp_all add: build_row_def)

lemma format_cell_build_row:
  "c \<in> set STANDARD_COLUMNS \<Longrightarrow>
     format_cell_value ext (build_row s) c = Inr (format_value ext c (the (build_row s c)))"
  by (auto simp: STANDARD_COLUMNS_def format_cell_value_def row_get_def build_row_cells)

lemma render_data_row_build_row:
  "render_data_row ext (build_row s) =
     Inr (Data_row (map (\<lambda>c. format_value ext c (the (build_row s c))) STANDARD_COLUMNS))"
proof -
  have "map_result (format_cell_value ext (build_row s)) cs =
      Inr (map (\<lambda>c. format_value ext c (the (build_row s c))) cs)"
    if "set cs \<subseteq> set STANDARD_COLUMNS" for cs
    using that by (induction cs) (simp_all add: format_cell_build_row)
  then show ?thesis
    by (simp add: render_data_row_def)
qed

text \<open>
  Claim C10. Row building turns an age, total marks or obtained marks of 0 into the empty
  string, which the formatter renders as \<open>-\<close>: the cell of such a student, alone and in the
  rendered data row (cells 2, 4 and 5 of the 7), is \<open>-\<close>. The formatter itself renders
  the int 0 and the float 0.0 of these columns as \<open>0\<close>.
\<close>

theorem zero_number_renders_as_dash:
  "(age s = 0 \<longrightarrow> format_cell_value ext (build_row s) Col_Age = Inr ''-'')
   \<and> (total_marks s = 0 \<longrightarrow> format_cell_value ext (build_row s) Col_Total_Marks = Inr ''-'')
   \<and> (obtained_marks s = 0 \<longrightarrow>
        format_cell_value ext (build_row s) Col_Obtained_Marks = Inr ''-'')
   \<and> (\<exists>cells. render_data_row ext (build_row s) = Inr (Data_row cells) \<and> length cells = 7
        \<and> (age s = 0 \<longrightarrow> cells ! 2 = ''-'')
        \<and> (total_marks s = 0 \<longrightarrow> cells ! 4 = ''-'')
        \<and> (obtained_marks s = 0 \<longrightarrow> cells ! 5 = ''-''))
   \<and> format_value ext Col_Age (PInt 0) = ''0''
   \<and> format_value ext Col_Total_Marks (PFloat 0) = ''0''"
  (is "?age \<and> ?total \<and> ?obtained \<and> ?row \<and> ?int0 \<and> ?float0")
proof -
  have zero: "str_int 0 = ''0''"
    by (simp add: str_int_def str_nat.simps digit_char_def)
  have ?age
    by (simp add: format_cell_build_row STANDARD_COLUMNS_def build_row_cells format_value_def)
  moreover have ?total
    by (simp add: format_cell_build_row STANDARD_COLUMNS_def build_row_cells format_value_def)
  moreover have ?obtained
    by (simp add: format_cell_build_row STANDARD_COLUMNS_def build_row_cells format_value_def)
  moreover have ?row
    unfolding render_data_row_build_row
    by (simp add: STANDARD_COLUMNS_def build_row_cells format_value_def)
  moreover have ?int0
    by (simp add: format_value_def zero)
  moreover have ?float0
    by (simp add: format_value_def zero py_int_def)
  ultimately show ?thesis
    by (intro conjI) assumption+
qed

text \<open>The example student with age 0 and obtained marks 0, and the same with total marks 0.\<close>

theorem zero_number_renders_as_dash_witness:
  "age student_sara = 0 \<and> obtained_marks student_sara = 0
   \<and> format_cell_value ext_ok (build_row student_sara) Col_Age = Inr ''-''
   \<and> format_cell_value ext_ok (build_row student_sara) Col_Obtained_Marks = Inr ''-''
   \<and> format_cell_value ext_ok (build_row (student_sara\<lparr>total_marks := 0\<rparr>)) Col_Total_Marks
       = Inr ''-''"
  using zero_number_renders_as_dash [of student_sara ext_ok]
    zero_number_renders_as_dash [of "student_sara\<lparr>total_marks := 0\<rparr>" ext_ok]
  by (simp add: student_sara_def)

section \<open>Failure of the PDF engine\<close>

text \<open>
  Claim C5. When a report call has built its HTML and the PDF engine fails on it, by
  raising with message \<open>m\<close> or by reporting \<open>k > 0\<close> errors, the call raises a
  \<open>UserError\<close> whose message is "PDF creation failed: " followed by \<open>m\<close>, respectively by
  "PDF generation error: k", and the environment, with its attachments, is as before.
  Whenever either call raises, the environment is as before.
\<close>

theorem pdf_failure_leaves_no_attachment:
  "(department_report_html ext env dept_id = Inr (html, dept_name)
      \<and> pisa_CreatePDF ext html = PisaRaises m \<longrightarrow>
      print_department_report ext env dept_id =
        (env, Inl (UserError (''PDF creation failed: '' @ m))))
   \<and> (department_report_html ext env dept_id = Inr (html, dept_name)
      \<and> pisa_CreatePDF ext html = PisaStatus k pdf \<and> k \<noteq> 0 \<longrightarrow>
      print_department_report ext env dept_id =
        (env, Inl (UserError (''PDF creation failed: PDF generation error: '' @ str_nat k))))
   \<and> (render_student_html ext student = Inr html
      \<and> pisa_CreatePDF ext html = PisaRaises m \<longrightarrow>
      generate_single_student_report ext env student =
        (env, Inl (UserError (''PDF creation failed: '' @ m))))
   \<and> (render_student_html ext student = Inr html
      \<and> pisa_CreatePDF ext html = PisaStatus k pdf \<and> k \<noteq> 0 \<longrightarrow>
      generate_single_student_report ext env student =
        (env, Inl (UserError (''PDF creation failed: PDF generation error: '' @ str_nat k))))
   \<and> (snd (print_department_report ext env dept_id) = Inl e \<longrightarrow>
        fst (print_department_report ext env dept_id) = env)
   \<and> (snd (generate_single_student_report ext env student) = Inl e \<longrightarrow>
        fst (generate_single_student_report ext env student) = env)"
  (is "?d1 \<and> ?d2 \<and> ?s1 \<and> ?s2 \<and> ?df \<and> ?sf")
proof -
  have ?d1
    by (simp add: print_department_report_def create_pdf_def)
  moreover have ?d2
    by (simp add: print_department_report_def create_pdf_def)
  moreover have ?s1
    by (simp add: generate_single_student_report_def create_pdf_def)
  moreover have ?s2
    by (simp add: generate_single_student_report_def create_pdf_def)
  moreover have ?df
    by (auto simp: print_department_report_def split: sum.splits prod.splits)
  moreover have ?sf
    by (auto simp: generate_single_student_report_def split: sum.splits prod.splits)
  ultimately show ?thesis
    by (intro conjI) assumption+
qed

section \<open>The email wizard\<close>

text \<open>
  Claim C8. On a record set whose first wizard is \<open>w\<close>, \<open>action_send_email\<close> raises a
  \<open>UserError\<close> when the recipient is blank, whatever the mode; when the mode is single and
  no student is selected; when the mode is department and no department is selected; in
  every other case it returns the success notification that names the recipient. It
  raises a \<open>UserError\<close> in these three cases only. The function has no effect besides its
  result.
\<close>

theorem email_wizard_validation:
  "(email_to w = [] \<longrightarrow>
      action_send_email (w # ws) = Inl (UserError ''Recipient email is required!''))
   \<and> (email_to w \<noteq> [] \<and> ew_report_type w = single \<and> ew_student_id w = None \<longrightarrow>
      action_send_email (w # ws) =
        Inl (UserError ''Please select a student for the single report.''))
   \<and> (email_to w \<noteq> [] \<and> ew_report_type w = department_wise \<and> ew_department_id w = None \<longrightarrow>
      action_send_email (w # ws) =
        Inl (UserError ''Please select a department for the department report.''))
   \<and> (email_to w \<noteq> []
      \<and> \<not> (ew_report_type w = single \<and> ew_student_id w = None)
      \<and> \<not> (ew_report_type w = department_wise \<and> ew_department_id w = None) \<longrightarrow>
      action_send_email (w # ws) =
        Inr (Some (Notification ''Success!''
                     (''Report sent successfully to '' @ email_to w @ ''.'')
                     ''success'' False True)))
   \<and> ((\<exists>m. action_send_email (w # ws) = Inl (UserError m)) \<longleftrightarrow>
        email_to w = []
        \<or> (ew_report_type w = single \<and> ew_student_id w = None)
        \<or> (ew_report_type w = department_wise \<and> ew_department_id w = None))"
  by (auto simp: action_send_email_def)

section \<open>The report wizard\<close>

text \<open>
  Claim C7, as amended. In the report wizard a change of the report type leaves the
  student and the department fields as they are. Submission looks at the field of the
  active mode only: it raises "Please select a student." or "Please select a
  department." when that field is empty and "Invalid report type selected." when the
  type is neither; otherwise it calls the generator of the active mode, whatever the
  other field holds.
\<close>

theorem report_wizard_checks_active_field_only:
  "rw_student_id (set_report_type t w) = rw_student_id w
   \<and> rw_department_id (set_report_type t w) = rw_department_id w
   \<and> rw_report_type (set_report_type t w) = t
   \<and> (rw_report_type w = single \<and> rw_student_id w = None \<longrightarrow>
        action_generate_report ext env [w] = (env, Inl (UserError ''Please select a student.'')))
   \<and> (rw_report_type w = department_wise \<and> rw_department_id w = None \<longrightarrow>
        action_generate_report ext env [w] =
          (env, Inl (UserError ''Please select a department.'')))
   \<and> (rw_report_type w = unset_type \<longrightarrow>
        action_generate_report ext env [w] =
          (env, Inl (UserError ''Invalid report type selected.'')))
   \<and> (rw_report_type w = single \<and> rw_student_id w = Some student \<longrightarrow>
        action_generate_report ext env [w] =
          wrap_error ''Error generating single student report:''
            (generate_single_student_report ext env student))
   \<and> (rw_report_type w = department_wise \<and> rw_department_id w = Some d \<longrightarrow>
        action_generate_report ext env [w] =
          wrap_error ''Error generating department report:''
            (print_department_report ext env (Some (row_id d))))"
  by (simp add: set_report_type_def action_generate_report_def ensure_one_def)



section \<open>The groups of the department report\<close>

text \<open>
  What the loop over the groups renders, for every input: each group has a row, so each
  table of a report with students is the header and one data row per row of its group,
  the placeholder row for an empty group is never rendered, and when the loop ends
  \<open>dept_name\<close> is the key of the last group.
\<close>

lemma map_result_Inr:
  "map_result f xs = Inr ys \<Longrightarrow> list_all2 (\<lambda>x y. f x = Inr y) xs ys"
  by (induction xs arbitrary: ys) (auto split: sum.splits)

lemma render_data_row_is_data_row:
  "render_data_row ext r = Inr tr \<Longrightarrow> \<exists>cells. tr = Data_row cells \<and> length cells = 7"
  by (auto simp: render_data_row_def STANDARD_COLUMNS_def
      dest!: map_result_Inr list_all2_lengthD split: sum.splits)

lemma groupby_groups_nonempty: "(k, g) \<in> set (groupby_Department df) \<Longrightarrow> g \<noteq> []"
proof -
  assume "(k, g) \<in> set (groupby_Department df)"
  then have k: "k \<in> set (department_keys df)"
    and g: "g = filter (\<lambda>r. r Col_Department = Some (PStr k)) df"
    by (auto simp: groupby_Department_def)
  from k obtain r where "r \<in> set df" "r Col_Department = Some (PStr k)"
    by (auto simp: department_keys_def split: option.splits pyval.splits)
  with g show "g \<noteq> []"
    by (auto simp: filter_empty_conv)
qed

lemma render_groups_tables:
  assumes "render_groups ext groups (html, n) = Inr (html', n')"
    and "\<forall>(k, g) \<in> set groups. g \<noteq> []"
    and "Html_table trs \<in> set html'"
  shows "Html_table trs \<in> set html \<or>
     (\<exists>k g drs. (k, g) \<in> set groups \<and> trs = header_row STANDARD_COLUMNS # drs \<and>
        list_all2 (\<lambda>r tr. render_data_row ext r = Inr tr) g drs)"
  using assms
proof (induction groups arbitrary: html n)
  case Nil
  then show ?case by simp
next
  case (Cons kg groups)
  obtain k g where kg: "kg = (k, g)"
    by (cases kg)
  with Cons.prems(2) have g: "g \<noteq> []"
    by simp
  from Cons.prems(1) kg g obtain drs
    where drs: "map_result (render_data_row ext) g = Inr drs"
      and rest: "render_groups ext groups
         (html @ [Department_title (''Department: '' @ k),
                  Html_table (header_row STANDARD_COLUMNS # drs)], k) = Inr (html', n')"
    by (auto split: sum.splits)
  from Cons.prems(2) have "\<forall>(k, g) \<in> set groups. g \<noteq> []"
    by simp
  from Cons.IH [OF rest this Cons.prems(3)] show ?case
  proof
    assume "Html_table trs \<in> set (html @ [Department_title (''Department: '' @ k),
                  Html_table (header_row STANDARD_COLUMNS # drs)])"
    then have "Html_table trs \<in> set html \<or> trs = header_row STANDARD_COLUMNS # drs"
      by auto
    with map_result_Inr [OF drs] kg show ?thesis
      by auto
  next
    assume "\<exists>k g drs. (k, g) \<in> set groups \<and> trs = header_row STANDARD_COLUMNS # drs \<and>
        list_all2 (\<lambda>r tr. render_data_row ext r = Inr tr) g drs"
    then show ?thesis
      by auto
  qed
qed

lemma render_groups_name:
  "render_groups ext groups (html, n) = Inr (html', n') \<Longrightarrow>
     n' = (if groups = [] then n else fst (last groups))"
proof (induction groups arbitrary: html n)
  case Nil
  then show ?case by simp
next
  case (Cons kg groups)
  obtain k g where kg: "kg = (k, g)"
    by (cases kg)
  from Cons.prems kg obtain trs where
    "render_groups ext groups
       (html @ [Department_title (''Department: '' @ k),
                Html_table (header_row STANDARD_COLUMNS # trs)], k) = Inr (html', n')"
    by (auto split: sum.splits if_splits)
  from Cons.IH [OF this] kg show ?case
    by simp
qed

lemma render_department_html_groups:
  assumes "render_department_html ext label df = Inr (html, n)" and "df \<noteq> []"
  shows "n = (if department_keys df = [] then label else last (department_keys df))"
    and "Html_table trs \<in> set html \<Longrightarrow>
      \<exists>k drs. k \<in> set (department_keys df) \<and> trs = header_row STANDARD_COLUMNS # drs \<and>
        list_all2 (\<lambda>r tr. render_data_row ext r = Inr tr)
          (filter (\<lambda>r. r Col_Department = Some (PStr k)) df) drs"
proof -
  from assms have r: "render_groups ext (groupby_Department df)
      ([Report_title (''Department Report - '' @ label)], label) = Inr (html, n)"
    by (simp add: render_department_html_def)
  from render_groups_name [OF r]
  show "n = (if department_keys df = [] then label else last (department_keys df))"
    by (simp add: groupby_Department_def last_map)
  assume t: "Html_table trs \<in> set html"
  have "\<forall>(k, g) \<in> set (groupby_Department df). g \<noteq> []"
    by (auto dest: groupby_groups_nonempty)
  from render_groups_tables [OF r this t] obtain k g drs
    where "(k, g) \<in> set (groupby_Department df)"
      and "trs = header_row STANDARD_COLUMNS # drs"
      and "list_all2 (\<lambda>r tr. render_data_row ext r = Inr tr) g drs"
    by auto
  then show "\<exists>k drs. k \<in> set (department_keys df) \<and> trs = header_row STANDARD_COLUMNS # drs \<and>
        list_all2 (\<lambda>r tr. render_data_row ext r = Inr tr)
          (filter (\<lambda>r. r Col_Department = Some (PStr k)) df) drs"
    by (auto simp: groupby_Department_def)
qed

lemma empty_group_branch_is_dead:
  assumes "department_report_html ext env dept_id = Inr (html, n)"
    and "Html_table trs \<in> set html"
  shows "Empty_row (length STANDARD_COLUMNS) ''No students in this department'' \<notin> set trs"
proof -
  from assms(1) obtain label df where
    r: "render_department_html ext label df = Inr (html, n)"
    by (auto simp: department_report_html_def Let_def split: sum.splits prod.splits if_splits)
  show ?thesis
  proof (cases "df = []")
    case True
    with r assms(2) show ?thesis
      by (auto simp: render_department_html_def header_row_def)
  next
    case False
    from render_department_html_groups(2) [OF r False assms(2)] obtain k drs
      where trs: "trs = header_row STANDARD_COLUMNS # drs"
        and drs: "list_all2 (\<lambda>r tr. render_data_row ext r = Inr tr)
          (filter (\<lambda>r. r Col_Department = Some (PStr k)) df) drs"
      by blast
    have "\<exists>r. render_data_row ext r = Inr tr" if "tr \<in> set drs" for tr
      using that drs by (auto simp: list_all2_conv_all_nth in_set_conv_nth)
    then have "\<exists>cells. tr = Data_row cells" if "tr \<in> set drs" for tr
      using that by (blast dest: render_data_row_is_data_row)
    with trs show ?thesis
      by (auto simp: header_row_def)
  qed
qed

lemma department_keys_students:
  "set (department_keys (map build_row students)) =
     (\<lambda>s. case department_id s of Some d \<Rightarrow> row_name d | None \<Rightarrow> ''No Department'') ` set students"
  by (auto simp: department_keys_def build_row_def image_iff)

lemma all_departments_report_name:
  assumes "department_report_html ext env None = Inr (html, n)"
    and "department_table env \<noteq> []"
    and "search_students env (\<lambda>s. True) \<noteq> []"
  shows "n = last (department_keys (map build_row (search_students env (\<lambda>s. True))))"
proof -
  let ?students = "search_students env (\<lambda>s. True)"
  from assms have r: "render_department_html ext ''ALL'' (map build_row ?students) = Inr (html, n)"
    by (simp add: department_report_html_def get_departments_def fetch_students_def
        build_dataframe_def)
  from assms(3) have "set (department_keys (map build_row ?students)) \<noteq> {}"
    unfolding department_keys_students by simp
  then have "department_keys (map build_row ?students) \<noteq> []"
    by auto
  with render_department_html_groups(1) [OF r] assms(3) show ?thesis
    by simp
qed


section \<open>The department report on the example data\<close>

lemma html_env_two:
  "department_report_html ext_ok env_two None =
     Inr ([Report_title ''Department Report - ALL'',
           Department_title ''Department: MATH'',
           Html_table
            [Header_row [''Name'', ''Father Name'', ''Age'', ''Grade'', ''Total Marks'',
               ''Obtained Marks'', ''Percentage''],
             Data_row [''Ali'', ''Umar'', ''20'', ''A'', ''200'', ''175'', ''87.50%''],
             Data_row [''Sara'', ''-'', ''-'', ''B'', ''100'', ''-'', ''0.00%'']]],
          ''MATH'')"
  by code_simp

text \<open>
  Claim C2, on the code: a report for all departments, of which \<open>BBA\<close> has no student
  and \<open>MATH\<close> has two. The rendered document has one table, for \<open>MATH\<close>, with one data row
  per student in the order of the standard columns; it has no title, table or
  placeholder row for \<open>BBA\<close>. The groups are the department values of the student rows,
  so the branch for an empty group is never taken (\<open>empty_group_branch_is_dead\<close>).
\<close>

theorem empty_department_gets_no_table:
  "get_departments env_two None = Inr ([dept_math, dept_bba], ''ALL'')
   \<and> filter (\<lambda>s. department_id s = Some dept_bba) (fetch_students env_two None ''ALL'') = []
   \<and> fetch_students env_two None ''ALL'' = [student_ali, student_sara]
   \<and> department_report_html ext_ok env_two None =
       Inr ([Report_title ''Department Report - ALL'',
             Department_title ''Department: MATH'',
             Html_table
              [Header_row [''Name'', ''Father Name'', ''Age'', ''Grade'', ''Total Marks'',
                 ''Obtained Marks'', ''Percentage''],
               Data_row [''Ali'', ''Umar'', ''20'', ''A'', ''200'', ''175'', ''87.50%''],
               Data_row [''Sara'', ''-'', ''-'', ''B'', ''100'', ''-'', ''0.00%'']]],
            ''MATH'')"
  by (simp add: html_env_two)
    (simp add: get_departments_def fetch_students_def search_students_def env_two_def
      student_ali_def student_sara_def dept_math_def dept_bba_def)

text \<open>
  Claim C3, on the code: the same report, targeted at all departments. The attachment is
  linked to record id 0, and its name ends in the name of the last group of the loop,
  \<open>MATH\<close>, not in the label \<open>ALL\<close> under which the report is titled
  (\<open>all_departments_report_name\<close> for every such report with students).
\<close>

theorem all_departments_report_named_after_last_group:
  "print_department_report ext_ok env_two None =
     (env_two\<lparr>attachment_table :=
        [\<lparr>att_id = 1, att_name = ''Department_Report_MATH.pdf'', att_type = ''binary'',
          att_datas = ''%PDF'', att_mimetype = ''application/pdf'',
          att_res_model = ''student'', att_res_id = 0\<rparr>]\<rparr>,
      Inr (ActUrl ''/web/content/1?download=true'' ''self''))"
  unfolding print_department_report_def html_env_two
  by (simp add: create_pdf_def ext_ok_def create_attachment_def fresh_id_def env_two_def
      replace_spaces_def download_action_def str_nat.simps digit_char_def Let_def)

lemma html_no_students:
  "department_report_html ext_raise (env_two\<lparr>student_table := []\<rparr>) None =
     Inr ([Report_title ''Department Report - ALL'',
           Department_title ''Department: ALL'',
           Html_table
            [Header_row [''Name'', ''Father Name'', ''Age'', ''Grade'', ''Total Marks'',
               ''Obtained Marks'', ''Percentage''],
             Empty_row 7 ''No student records found for this department'']],
          ''ALL'')"
  by code_simp

lemma html_student_ali:
  "render_student_html ext_raise student_ali =
     Inr [Report_title ''Student Report - Ali'',
          Section_title ''Personal Information'',
          Html_table
           [Header_row [''Name'', ''Father Name'', ''Age'', ''Gender'', ''Department'', ''Grade''],
            Data_row [''Ali'', ''Umar'', ''20'', ''Male'', ''MATH'', ''A'']],
          Section_title ''Academic Performance'',
          Html_table
           [Header_row [''Total Marks'', ''Obtained Marks'', ''Percentage''],
            Data_row [''float'', ''float'', ''87.50%'']],
          Section_title ''Education History'',
          Html_table
           [Header_row [''Institute'', ''Degree'', ''Passing Year''],
            Empty_row 3 ''No education history available'']]"
  by code_simp

lemma pisa_ext_raise: "pisa_CreatePDF ext_raise h = PisaRaises ''out of memory''"
  by (simp add: ext_raise_def)

text \<open>A PDF engine that raises, on a department report and on a student report.\<close>

theorem pdf_failure_leaves_no_attachment_witness:
  "print_department_report ext_raise (env_two\<lparr>student_table := []\<rparr>) None =
     (env_two\<lparr>student_table := []\<rparr>, Inl (UserError ''PDF creation failed: out of memory''))
   \<and> generate_single_student_report ext_raise env_two student_ali =
     (env_two, Inl (UserError ''PDF creation failed: out of memory''))"
  using pdf_failure_leaves_no_attachment [where ext = ext_raise
        and env = "env_two\<lparr>student_table := []\<rparr>" and dept_id = None and m = "''out of memory''"
        and k = 0 and student = student_ali and e = "UserError []", unfolded html_no_students]
    pdf_failure_leaves_no_attachment [where ext = ext_raise
        and env = env_two and dept_id = None and m = "''out of memory''"
        and k = 0 and student = student_ali and e = "UserError []", unfolded html_student_ali]
  by (simp add: pisa_ext_raise)

theorem email_wizard_validation_witness:
  "action_send_email
     [\<lparr>ew_report_type = department_wise, ew_student_id = None,
       ew_department_id = Some dept_math, email_to = [], phone = []\<rparr>] =
     Inl (UserError ''Recipient email is required!'')
   \<and> action_send_email
     [\<lparr>ew_report_type = single, ew_student_id = None, ew_department_id = None,
       email_to = ''a@b.pk'', phone = []\<rparr>] =
     Inl (UserError ''Please select a student for the single report.'')
   \<and> action_send_email
     [\<lparr>ew_report_type = department_wise, ew_student_id = None, ew_department_id = None,
       email_to = ''a@b.pk'', phone = []\<rparr>] =
     Inl (UserError ''Please select a department for the department report.'')
   \<and> action_send_email
     [\<lparr>ew_report_type = single, ew_student_id = Some student_ali, ew_department_id = None,
       email_to = ''a@b.pk'', phone = []\<rparr>] =
     Inr (Some (Notification ''Success!'' ''Report sent successfully to a@b.pk.''
                  ''success'' False True))"
  using email_wizard_validation [of
      "\<lparr>ew_report_type = department_wise, ew_student_id = None,
        ew_department_id = Some dept_math, email_to = [], phone = []\<rparr>" "[]"]
    email_wizard_validation [of
      "\<lparr>ew_report_type = single, ew_student_id = None, ew_department_id = None,
        email_to = ''a@b.pk'', phone = []\<rparr>" "[]"]
    email_wizard_validation [of
      "\<lparr>ew_report_type = department_wise, ew_student_id = None, ew_department_id = None,
        email_to = ''a@b.pk'', phone = []\<rparr>" "[]"]
    email_wizard_validation [of
      "\<lparr>ew_report_type = single, ew_student_id = Some student_ali, ew_department_id = None,
        email_to = ''a@b.pk'', phone = []\<rparr>" "[]"]
  by simp

theorem report_wizard_checks_active_field_only_witness:
  "action_generate_report ext_ok env_two
     [\<lparr>rw_report_type = single, rw_student_id = None, rw_department_id = Some dept_math\<rparr>] =
     (env_two, Inl (UserError ''Please select a student.''))
   \<and> action_generate_report ext_ok env_two
     [\<lparr>rw_report_type = department_wise, rw_student_id = Some student_ali,
       rw_department_id = None\<rparr>] =
     (env_two, Inl (UserError ''Please select a department.''))
   \<and> action_generate_report ext_ok env_two
     [\<lparr>rw_report_type = unset_type, rw_student_id = Some student_ali,
       rw_department_id = Some dept_math\<rparr>] =
     (env_two, Inl (UserError ''Invalid report type selected.''))"
  using report_wizard_checks_active_field_only [of single
      "\<lparr>rw_report_type = single, rw_student_id = None, rw_department_id = Some dept_math\<rparr>"
      ext_ok env_two student_ali dept_math]
    report_wizard_checks_active_field_only [of single
      "\<lparr>rw_report_type = department_wise, rw_student_id = Some student_ali,
        rw_department_id = None\<rparr>" ext_ok env_two student_ali dept_math]
    report_wizard_checks_active_field_only [of single
      "\<lparr>rw_report_type = unset_type, rw_student_id = Some student_ali,
        rw_department_id = Some dept_math\<rparr>" ext_ok env_two student_ali dept_math]
  by simp

lemma wizard_ali_submit:
  "snd (action_generate_report ext_ok env_two
     [\<lparr>rw_report_type = department_wise, rw_student_id = Some student_ali,
       rw_department_id = Some dept_math\<rparr>]) =
     Inr (ActUrl ''/web/content/1?download=true'' ''self'')"
  by code_simp

text \<open>
  The claim as stated fails: the wizard that \<open>action_open_report_choice\<close> opens for a
  student has the student and the student's department set; after a change of the
  report type both are still set, and submission succeeds.
\<close>

theorem report_wizard_keeps_both_fields_counterexample:
  "action_open_report_choice [student_ali] =
     Inr (ActWindow ''student.report.wizard''
            \<lparr>default_student_id = Some 1, default_report_type = single,
             default_department_id = Some 1, default_email_to = []\<rparr>)
   \<and> set_report_type department_wise
       (open_report_wizard env_two
          \<lparr>default_student_id = Some 1, default_report_type = single,
           default_department_id = Some 1, default_email_to = []\<rparr>) =
     \<lparr>rw_report_type = department_wise, rw_student_id = Some student_ali,
      rw_department_id = Some dept_math\<rparr>
   \<and> snd (action_generate_report ext_ok env_two
        [\<lparr>rw_report_type = department_wise, rw_student_id = Some student_ali,
          rw_department_id = Some dept_math\<rparr>]) =
     Inr (ActUrl ''/web/content/1?download=true'' ''self'')"
  by (simp add: wizard_ali_submit)
    (simp add: action_open_report_choice_def ensure_one_def set_report_type_def
      open_report_wizard_def env_two_def student_ali_def student_sara_def dept_math_def
      dept_bba_def)

end
